theory Spec2Isabelle
  imports Main
begin

section \<open>Strings and numbers of the host language\<close>

text \<open>
  Strings are byte lists. The source only ever inspects ASCII letters, digits and
  punctuation of them (\<open>no-cache\<close>, \<open>.md\<close>, \<open>/\<close>, decimal numerals), so
  \<open>toLowerCase\<close> folds the letters \<open>A\<close> to \<open>Z\<close> and leaves every other byte alone.
\<close>

definition lower_char :: "char \<Rightarrow> char" where
  "lower_char c =
     (case map_of (zip ''ABCDEFGHIJKLMNOPQRSTUVWXYZ'' ''abcdefghijklmnopqrstuvwxyz'') c of
        None \<Rightarrow> c
      | Some l \<Rightarrow> l)"

definition toLowerCase :: "string \<Rightarrow> string" where
  "toLowerCase s = map lower_char s"

fun startsWith :: "string \<Rightarrow> string \<Rightarrow> bool" where
  "startsWith s [] = True"
| "startsWith [] (p # ps) = False"
| "startsWith (c # cs) (p # ps) = (c = p \<and> startsWith cs ps)"

definition endsWith :: "string \<Rightarrow> string \<Rightarrow> bool" where
  "endsWith s suffix = startsWith (rev s) (rev suffix)"

fun includes_str :: "string \<Rightarrow> string \<Rightarrow> bool" where
  "includes_str [] sub = (sub = [])"
| "includes_str (c # cs) sub = (startsWith (c # cs) sub \<or> includes_str cs sub)"

text \<open>\<open>s.split("/").filter((s) => s !== "")\<close>: the non-empty pieces between slashes.\<close>

fun split_slash :: "string \<Rightarrow> string \<Rightarrow> string list" where
  "split_slash cur [] = [rev cur]"
| "split_slash cur (c # cs) =
     (if c = CHR ''/'' then rev cur # split_slash [] cs else split_slash (c # cur) cs)"

definition segments :: "string \<Rightarrow> string list" where
  "segments p = filter (\<lambda>s. s \<noteq> []) (split_slash [] p)"

text \<open>
  Numbers. Every number the cache layer handles is a timestamp in milliseconds or a
  duration, a non-negative integer far below \<open>2^53\<close>, so \<open>nat\<close> carries it exactly.
  \<open>Number(...)\<close> of a header value can also be \<open>NaN\<close>, and every comparison with
  \<open>NaN\<close> is false.
\<close>

datatype jsnum = Num nat | NaN

fun js_less :: "jsnum \<Rightarrow> nat \<Rightarrow> bool" where
  "js_less (Num a) b = (a < b)"
| "js_less NaN b = False"

definition digit_char :: "nat \<Rightarrow> char" where
  "digit_char d = ''0123456789'' ! d"

text \<open>
  \<open>n.toFixed(0)\<close> and the interpolation \<open>`${n}`\<close> of a non-negative integer: its
  decimal numeral.
\<close>

function decimal :: "nat \<Rightarrow> string" where
  "decimal n =
     (if n < 10 then [digit_char n] else decimal (n div 10) @ [digit_char (n mod 10)])"
  by pat_completeness auto
termination
  by (relation "measure id") auto

declare decimal.simps [simp del]

definition digit_value :: "char \<Rightarrow> nat option" where
  "digit_value c = map_of (zip ''0123456789'' [0, 1, 2, 3, 4, 5, 6, 7, 8, 9]) c"

fun digits_value :: "nat \<Rightarrow> string \<Rightarrow> nat option" where
  "digits_value acc [] = Some acc"
| "digits_value acc (c # cs) =
     (case digit_value c of None \<Rightarrow> None | Some d \<Rightarrow> digits_value (10 * acc + d) cs)"

text \<open>
  \<open>Number(s)\<close> for a string: the empty string is \<open>0\<close>, an unsigned decimal numeral is
  its value. The program writes no other form into the header it reads back (see
  \<open>writeToCache\<close>, which writes \<open>toFixed(0)\<close> of a timestamp). The other forms that
  \<open>Number\<close> reads as numbers (signs, fractions, exponents such as \<open>1e3\<close>, hexadecimal
  and padded numerals) are outside this model and read as \<open>NaN\<close> here, and a numeral
  above \<open>2^53\<close>, which \<open>Number\<close> rounds, keeps its exact value here.
\<close>

definition Number_of_string :: "string \<Rightarrow> jsnum" where
  "Number_of_string s =
     (case digits_value 0 s of None \<Rightarrow> NaN | Some n \<Rightarrow> Num n)"

section \<open>HTML and the sanitizer configuration\<close>

text \<open>
  The transformer's HTML is kept as the forest of elements that the sanitizer's parser
  walks: text, comments, and elements with a tag name, attributes in order, and children.
\<close>

datatype node =
  Text string
| Comment string
| Element string "(string \<times> string) list" "node list"

datatype disallowedTagsMode = discard | escape | recursiveEscape

record Options =
  allowedTags :: "string list"
  disallowedTagsMode :: disallowedTagsMode
  allowedAttributes :: "(string \<times> string list) list"
  selfClosing :: "string list"
  allowedSchemes :: "string list"
  allowedSchemesByTag :: "(string \<times> string list) list"
  allowedSchemesAppliedToAttributes :: "string list"
  allowProtocolRelative :: bool
  enforceHtmlBoundary :: bool

text \<open>The options object that \<open>parseMarkdown\<close> passes to \<open>sanitize\<close>, entry by entry.\<close>

definition sanitizeOptions :: Options where
  "sanitizeOptions =
     \<lparr> allowedTags =
         [''address'', ''article'', ''aside'', ''footer'', ''header'',
          ''h1'', ''h2'', ''h3'', ''h4'', ''h5'', ''h6'',
          ''hgroup'', ''main'', ''nav'', ''section'', ''blockquote'', ''img'',
          ''dd'', ''div'', ''dl'', ''dt'', ''figcaption'', ''figure'', ''hr'', ''li'',
          ''main'', ''ol'', ''p'', ''pre'', ''ul'', ''a'', ''abbr'', ''b'', ''bdi'',
          ''bdo'', ''br'', ''cite'', ''code'', ''data'', ''dfn'', ''em'', ''i'', ''kbd'',
          ''mark'', ''q'', ''rb'', ''rp'', ''rt'', ''rtc'', ''ruby'', ''s'', ''samp'',
          ''small'', ''span'', ''strong'', ''sub'', ''sup'', ''time'', ''u'', ''var'',
          ''wbr'', ''caption'', ''col'', ''colgroup'', ''table'', ''tbody'', ''td'',
          ''tfoot'', ''th'', ''thead'', ''tr''],
       disallowedTagsMode = discard,
       allowedAttributes =
         [(''*'', [''class'', ''id'', ''style'']),
          (''a'', [''href'', ''name'', ''target'']),
          (''img'', [''src'', ''srcset'', ''alt'', ''title'', ''width'', ''height'',
                    ''loading''])],
       selfClosing =
         [''img'', ''br'', ''hr'', ''area'', ''base'', ''basefont'', ''input'', ''link'',
          ''meta''],
       allowedSchemes = [''http'', ''https'', ''ftp'', ''mailto'', ''tel''],
       allowedSchemesByTag = [],
       allowedSchemesAppliedToAttributes = [''href'', ''src'', ''cite''],
       allowProtocolRelative = True,
       enforceHtmlBoundary = True \<rparr>"

text \<open>
  Modelled from the spec: the sanitizer itself (the package \<open>sanitize-html\<close>) is not
  among the sources, only the options above are. Its walk is modelled from the spec's
  words: the rendered HTML is filtered "against a fixed allow-list of tags and attributes",
  the "scheme allow-list" is "applied to URL-bearing attributes", and "disallowed
  tags/attributes are dropped, not escaped-and-shown". The scheme of a URL is read as a
  browser reads it: bytes up to \<open>0x20\<close> are ignored, the name is a letter followed by
  letters, digits, \<open>.\<close>, \<open>-\<close> or \<open>+\<close> up to the first colon, and case does not matter.
\<close>

definition scheme_letter :: "char \<Rightarrow> bool" where
  "scheme_letter c =
     (c \<in> set ''abcdefghijklmnopqrstuvwxyzABCDEFGHIJKLMNOPQRSTUVWXYZ'')"

definition scheme_char :: "char \<Rightarrow> bool" where
  "scheme_char c = (scheme_letter c \<or> c \<in> set ''0123456789.-+'')"

definition url_scheme :: "string \<Rightarrow> string option" where
  "url_scheme href =
     (let h = filter (\<lambda>c. (32::nat) < of_char c) href
      in case h of
           [] \<Rightarrow> None
         | c # _ \<Rightarrow>
             if scheme_letter c \<and> startsWith (dropWhile scheme_char h) '':''
             then Some (toLowerCase (takeWhile scheme_char h))
             else None)"

text \<open>
  Modelled from the spec: whether the scheme allow-list rejects a URL-bearing attribute
  value of the element \<open>name\<close>. A value without a scheme is relative and passes; one that
  starts with two slashes or backslashes passes when \<open>allowProtocolRelative\<close> is set.
\<close>

definition naughtyHref :: "Options \<Rightarrow> string \<Rightarrow> string \<Rightarrow> bool" where
  "naughtyHref opts name href =
     (case url_scheme href of
        None \<Rightarrow>
          (case filter (\<lambda>c. (32::nat) < of_char c) href of
             a # b # _ \<Rightarrow>
               if a \<in> {CHR ''/'', CHR 0x5C} \<and> b \<in> {CHR ''/'', CHR 0x5C}
               then \<not> allowProtocolRelative opts else False
           | _ \<Rightarrow> False)
      | Some scheme \<Rightarrow>
          (case map_of (allowedSchemesByTag opts) name of
             Some schemes \<Rightarrow> scheme \<notin> set schemes
           | None \<Rightarrow> scheme \<notin> set (allowedSchemes opts)))"

text \<open>
  Modelled from the spec: an attribute is kept when the allow-list names it for the
  element or for \<open>*\<close>, and, where the scheme allow-list applies to it, its value passes.
\<close>

definition allowedAttributesFor :: "Options \<Rightarrow> string \<Rightarrow> string list" where
  "allowedAttributesFor opts name =
     (case map_of (allowedAttributes opts) name of None \<Rightarrow> [] | Some as \<Rightarrow> as)
     @ (case map_of (allowedAttributes opts) ''*'' of None \<Rightarrow> [] | Some as \<Rightarrow> as)"

definition keepAttribute :: "Options \<Rightarrow> string \<Rightarrow> string \<times> string \<Rightarrow> bool" where
  "keepAttribute opts name av =
     (fst av \<in> set (allowedAttributesFor opts name)
      \<and> \<not> (fst av \<in> set (allowedSchemesAppliedToAttributes opts)
            \<and> naughtyHref opts name (snd av)))"

text \<open>
  Modelled from the spec: the walk over the forest. An allowed element stays, with its
  kept attributes and its sanitized children. In the mode \<open>discard\<close> a disallowed element
  is dropped and its sanitized children take its place, except that the content of
  \<open>script\<close>, \<open>style\<close>, \<open>textarea\<close> and \<open>option\<close> goes with the element. The two other
  modes turn the element into text; the program does not use them. Comments are dropped.
  The options \<open>selfClosing\<close> and \<open>enforceHtmlBoundary\<close> concern how the sanitizer reads
  and prints HTML text and play no part in the walk.
\<close>

definition nonTextTags :: "string list" where
  "nonTextTags = [''script'', ''style'', ''textarea'', ''option'']"

fun escaped_tag :: "string \<Rightarrow> node" where
  "escaped_tag name = Text (''<'' @ name @ ''>'')"

fun sanitize_node :: "Options \<Rightarrow> node \<Rightarrow> node list" where
  "sanitize_node opts (Text t) = [Text t]"
| "sanitize_node opts (Comment c) = []"
| "sanitize_node opts (Element name attribs children) =
     (if name \<in> set (allowedTags opts)
      then [Element name (filter (keepAttribute opts name) attribs)
              (concat (map (sanitize_node opts) children))]
      else if disallowedTagsMode opts \<noteq> discard
      then escaped_tag name # concat (map (sanitize_node opts) children)
      else if name \<in> set nonTextTags then []
      else concat (map (sanitize_node opts) children))"

definition sanitize :: "node list \<Rightarrow> Options \<Rightarrow> node list" where
  "sanitize html opts = concat (map (sanitize_node opts) html)"

text \<open>What a forest contains: its tag names, and its attributes with the tag they sit on.\<close>

fun node_tags :: "node \<Rightarrow> string list" where
  "node_tags (Text t) = []"
| "node_tags (Comment c) = []"
| "node_tags (Element name attribs children) = name # concat (map node_tags children)"

definition tags_of :: "node list \<Rightarrow> string list" where
  "tags_of html = concat (map node_tags html)"

fun node_attribs :: "node \<Rightarrow> (string \<times> string \<times> string) list" where
  "node_attribs (Text t) = []"
| "node_attribs (Comment c) = []"
| "node_attribs (Element name attribs children) =
     map (\<lambda>av. (name, fst av, snd av)) attribs @ concat (map node_attribs children)"

definition attribs_of :: "node list \<Rightarrow> (string \<times> string \<times> string) list" where
  "attribs_of html = concat (map node_attribs html)"

section \<open>Data model\<close>

datatype js_error = SyntaxError | LibraryError string

record 'a ApiData =
  attributes :: 'a
  html :: "node list"

record CachedFile =
  path :: string
  sha :: string

record CachedFiles =
  sha :: string
  files :: "CachedFile list"

text \<open>
  The JSON texts the program writes and reads are kept as the values they encode:
  \<open>ApiData\<close>, \<open>CachedFiles\<close> or \<open>ApiError\<close>. Each is an object, hence truthy.
\<close>

datatype 'a Json =
  ApiDataJson "'a ApiData"
| CachedFilesJson CachedFiles
| ApiErrorJson string

text \<open>
  The \<open>html\<close> property handed to the demo page: \<open>"html" in json ? json.html : json.error\<close>.
\<close>

datatype HtmlProp = HtmlOf "node list" | ErrorOf string | Undefined

datatype 'a Body = JsonBody "'a Json" | DemoPage HtmlProp

text \<open>
  \<open>Headers\<close> is case-insensitive: the map is keyed by the lower-case header name, and
  holds the value that \<open>get\<close> returns.
\<close>

type_synonym Headers = "string \<rightharpoonup> string"

text \<open>
  A request, with its URL already parsed as \<open>new URL(request.url)\<close> parses it:
  \<open>request.url\<close> is \<open>origin + pathname + search\<close>.
\<close>

record Request =
  origin :: string
  pathname :: string
  search :: string
  headers :: Headers

definition url :: "Request \<Rightarrow> string" where
  "url request = origin request @ pathname request @ search request"

record 'a Response =
  status :: nat
  headers :: Headers
  body :: "'a Body"

text \<open>
  \<open>caches.default\<close>: what \<open>match\<close> finds under each URL at the time of the request.
  The platform evicts an entry once its \<open>max-age\<close> has passed; an evicted entry is
  simply not in the map.
\<close>

type_synonym 'a Cache = "string \<rightharpoonup> 'a Response"

record 'a Cached =
  data :: "'a Json"
  staleAt :: jsnum

text \<open>
  The libraries of the transformer enter as parameters: \<open>frontmatter\<close> (which throws on
  malformed front matter), the emoji pass \<open>body.replace(/(:.*:)/g, emojiReplacer)\<close>, and
  \<open>marked\<close> with its options, whose HTML is read as a forest. So does the URL parser
  where \<open>renderDemo\<close> resolves a path taken from the request: \<open>URL_pathname file\<close> is the
  pathname of \<open>new URL(file, domain)\<close>, which normalises \<open>file\<close>, reads one that starts
  with two slashes as another host, and throws on one it cannot parse.
\<close>

record 'a Libraries =
  frontmatter :: "string \<Rightarrow> js_error + (string \<times> 'a)"
  replace_emoji :: "string \<Rightarrow> string"
  marked :: "string \<Rightarrow> js_error + node list"
  URL_pathname :: "string \<Rightarrow> js_error + string"

text \<open>
  The upstream: \<open>fetch\<close> of \<open>new URL(pathname, "https://raw.githubusercontent.com/")\<close>,
  and of the recursive tree listing of \<open>user\<close>, \<open>repo\<close>, \<open>sha\<close>. A fetch resolves with a
  response that is \<open>ok\<close> or not; a successful tree response carries the JSON the source
  casts it to.
\<close>

record 'b FetchResponse =
  ok :: bool
  content :: 'b

record TreeItem =
  path :: string
  type :: string
  sha :: string

record GitTree =
  sha :: string
  tree :: "TreeItem list"

datatype UpstreamRequest = RawContent string | TreeListing string string string

record Upstream =
  raw :: "string \<Rightarrow> string FetchResponse"
  trees :: "string \<Rightarrow> string \<Rightarrow> string \<Rightarrow> GitTree FetchResponse"

text \<open>
  \<open>ctx.waitUntil(promise)\<close>: the work handed to the platform to finish after the
  response. Each task is the promise as the source builds it.
\<close>

datatype 'a Task =
  WriteToCache string "'a Json"
| RegenerateMarkdown string string
| RegenerateFiles string string string string
| PutResponse string "'a Response"

text \<open>
  What a handler did: the response it resolved with (or the error it threw), the
  upstream requests it awaited before that, and the tasks it gave to \<open>ctx.waitUntil\<close>.
\<close>

record 'a Handled =
  outcome :: "js_error + 'a Response"
  fetched :: "UpstreamRequest list"
  waitUntil :: "'a Task list"

section \<open>The transformer\<close>

definition parseMarkdown :: "'a Libraries \<Rightarrow> string \<Rightarrow> js_error + 'a ApiData" where
  "parseMarkdown L markdown =
     (case frontmatter L markdown of
        Inl e \<Rightarrow> Inl e
      | Inr (text, attrs) \<Rightarrow>
          (case marked L (replace_emoji L text) of
             Inl e \<Rightarrow> Inl e
           | Inr rendered \<Rightarrow>
               Inr \<lparr> attributes = attrs, html = sanitize rendered sanitizeOptions \<rparr>))"

section \<open>The cache layer\<close>

definition REVALIDATE_AFTER_MS :: nat where
  "REVALIDATE_AFTER_MS = 5 * 60 * 1000"

definition STALE_FOR_SECONDS :: nat where
  "STALE_FOR_SECONDS = 2 * 24 * 60 * 60"

definition shouldSkipCache :: "Request \<Rightarrow> bool" where
  "shouldSkipCache request =
     ((case Request.headers request ''cache-control'' of
         None \<Rightarrow> False
       | Some v \<Rightarrow> includes_str (toLowerCase v) ''no-cache'')
      \<or> (case Request.headers request ''pragma'' of
            None \<Rightarrow> False
          | Some v \<Rightarrow> includes_str (toLowerCase v) ''no-cache''))"

text \<open>
  \<open>readFromCache\<close>: \<open>match.json()\<close> throws on a body that is not JSON;
  \<open>match.headers.get("Stale-At") || 0\<close> is \<open>0\<close> for a missing and for an empty header.
\<close>

definition readFromCache :: "'a Cache \<Rightarrow> string \<Rightarrow> js_error + 'a Cached option" where
  "readFromCache cache key =
     (case cache (''kv://'' @ key) of
        None \<Rightarrow> Inr None
      | Some match \<Rightarrow>
          (case body match of
             DemoPage _ \<Rightarrow> Inl SyntaxError
           | JsonBody json \<Rightarrow>
               Inr (Some \<lparr> data = json,
                          staleAt =
                            (case Response.headers match ''stale-at'' of
                               None \<Rightarrow> Num 0
                             | Some v \<Rightarrow> if v = [] then Num 0 else Number_of_string v) \<rparr>)))"

text \<open>\<open>writeToCache\<close>, called when \<open>Date.now()\<close> is \<open>now\<close>.\<close>

definition writeToCache :: "nat \<Rightarrow> string \<Rightarrow> 'a Json \<Rightarrow> 'a Cache \<Rightarrow> 'a Cache" where
  "writeToCache now key v cache =
     cache(''kv://'' @ key \<mapsto>
       \<lparr> status = 200,
         headers =
           [''content-type'' \<mapsto> ''application/json'',
            ''cache-control'' \<mapsto>
              ''public, max-age='' @ decimal STALE_FOR_SECONDS @ '', immutable'',
            ''stale-at'' \<mapsto> decimal (now + REVALIDATE_AFTER_MS)],
         body = JsonBody v \<rparr>)"

text \<open>
  Modelled from the spec: the source stores no \<open>expiresAt\<close>; it leaves eviction to the
  platform and only sets \<open>max-age=STALE_FOR_SECONDS\<close> on the entry. The specification's
  \<open>expiresAt\<close> is the "absolute timestamp after which the entry is evicted entirely
  (fixed TTL, e.g. 2 days from write)": for an entry put at \<open>now\<close>, that many seconds
  later, in milliseconds like \<open>Stale-At\<close>.
\<close>

definition expiresAt :: "nat \<Rightarrow> nat" where
  "expiresAt now = now + STALE_FOR_SECONDS * 1000"

definition createNewCacheEntry ::
  "'a Libraries \<Rightarrow> Upstream \<Rightarrow> string \<Rightarrow> js_error + 'a ApiData option" where
  "createNewCacheEntry L U p =
     (let contentResponse = raw U p
      in if \<not> ok contentResponse then Inr None
         else (case parseMarkdown L (content contentResponse) of
                 Inl e \<Rightarrow> Inl e
               | Inr parsed \<Rightarrow> Inr (Some parsed)))"

definition createNewFilesCacheEntry ::
  "Upstream \<Rightarrow> string \<Rightarrow> string \<Rightarrow> string \<Rightarrow> CachedFiles option" where
  "createNewFilesCacheEntry U user repo ref =
     (let contentResponse = trees U user repo ref
      in if \<not> ok contentResponse then None
         else
           (let listing = content contentResponse;
                found =
                  foldl (\<lambda>acc item.
                          if TreeItem.type item = ''blob''
                             \<and> endsWith (toLowerCase (TreeItem.path item)) ''.md''
                          then acc @ [\<lparr> CachedFile.path = TreeItem.path item,
                                        sha = TreeItem.sha item \<rparr>]
                          else acc)
                    [] (tree listing)
            in Some \<lparr> CachedFiles.sha = GitTree.sha listing, files = found \<rparr>))"

definition notFound :: "'a Response" where
  "notFound =
     \<lparr> status = 404,
       headers = [''content-type'' \<mapsto> ''application/json''],
       body = JsonBody (ApiErrorJson ''Not found'') \<rparr>"

definition jsonResponse :: "'a Json \<Rightarrow> 'a Response" where
  "jsonResponse json =
     \<lparr> status = 200,
       headers =
         [''content-type'' \<mapsto> ''application/json'',
          ''cache-control'' \<mapsto>
            ''public, max-age='' @ decimal (REVALIDATE_AFTER_MS div 1000) @ '', immutable''],
       body = JsonBody json \<rparr>"

definition renderMarkdown ::
  "'a Libraries \<Rightarrow> Upstream \<Rightarrow> nat \<Rightarrow> Request \<Rightarrow> 'a Cache \<Rightarrow> 'a Handled" where
  "renderMarkdown L U now request cache =
     (let kvJsonKey = ''json-swr'' @ pathname request
      in case (if shouldSkipCache request then Inr None else readFromCache cache kvJsonKey) of
           Inl e \<Rightarrow> \<lparr> outcome = Inl e, fetched = [], waitUntil = [] \<rparr>
         | Inr (Some cached) \<Rightarrow>
             \<lparr> outcome = Inr (jsonResponse (data cached)),
               fetched = [],
               waitUntil =
                 (if js_less (staleAt cached) now
                  then [RegenerateMarkdown kvJsonKey (pathname request)] else []) \<rparr>
         | Inr None \<Rightarrow>
             (case createNewCacheEntry L U (pathname request) of
                Inl e \<Rightarrow>
                  \<lparr> outcome = Inl e, fetched = [RawContent (pathname request)],
                    waitUntil = [] \<rparr>
              | Inr None \<Rightarrow>
                  \<lparr> outcome = Inr notFound, fetched = [RawContent (pathname request)],
                    waitUntil = [] \<rparr>
              | Inr (Some parsed) \<Rightarrow>
                  \<lparr> outcome = Inr (jsonResponse (ApiDataJson parsed)),
                    fetched = [RawContent (pathname request)],
                    waitUntil = [WriteToCache kvJsonKey (ApiDataJson parsed)] \<rparr>))"

text \<open>
  \<open>let [user, repo, sha] = ...\<close>: a missing piece is \<open>undefined\<close>, which the URL
  template prints as the word.
\<close>

definition piece :: "string list \<Rightarrow> nat \<Rightarrow> string" where
  "piece ps i = (if i < length ps then ps ! i else ''undefined'')"

definition renderFiles :: "Upstream \<Rightarrow> nat \<Rightarrow> Request \<Rightarrow> 'a Cache \<Rightarrow> 'a Handled" where
  "renderFiles U now request cache =
     (let ps = segments (pathname request);
          user = piece ps 0; repo = piece ps 1; ref = piece ps 2;
          filesJsonKey = ''files'' @ pathname request
      in case (if shouldSkipCache request then Inr None
               else readFromCache cache filesJsonKey) of
           Inl e \<Rightarrow> \<lparr> outcome = Inl e, fetched = [], waitUntil = [] \<rparr>
         | Inr (Some cached) \<Rightarrow>
             \<lparr> outcome = Inr (jsonResponse (data cached)),
               fetched = [],
               waitUntil =
                 (if js_less (staleAt cached) now
                  then [RegenerateFiles filesJsonKey user repo ref] else []) \<rparr>
         | Inr None \<Rightarrow>
             (case createNewFilesCacheEntry U user repo ref of
                None \<Rightarrow>
                  \<lparr> outcome = Inr notFound, fetched = [TreeListing user repo ref],
                    waitUntil = [] \<rparr>
              | Some listing \<Rightarrow>
                  \<lparr> outcome = Inr (jsonResponse (CachedFilesJson listing)),
                    fetched = [TreeListing user repo ref],
                    waitUntil = [WriteToCache filesJsonKey (CachedFilesJson listing)] \<rparr>))"

section \<open>The request handler\<close>

definition htmlProp :: "'a Json \<Rightarrow> HtmlProp" where
  "htmlProp json =
     (case json of
        ApiDataJson d \<Rightarrow> HtmlOf (html d)
      | ApiErrorJson e \<Rightarrow> ErrorOf e
      | CachedFilesJson _ \<Rightarrow> Undefined)"

text \<open>
  The demo shell: \<open>renderMarkdown\<close> on an inner request that takes over the
  \<open>Cache-Control\<close> header only, wrapped into the page.
\<close>

definition renderShell ::
  "'a Libraries \<Rightarrow> Upstream \<Rightarrow> nat \<Rightarrow> Request \<Rightarrow> string \<Rightarrow> 'a Cache \<Rightarrow> 'a Handled" where
  "renderShell L U now request file cache =
     (let markdownHeaders =
            (case Request.headers request ''cache-control'' of
               None \<Rightarrow> Map.empty
             | Some v \<Rightarrow> [''cache-control'' \<mapsto> v]);
          h = renderMarkdown L U now
                \<lparr> origin = origin request, pathname = file, search = [],
                  headers = markdownHeaders \<rparr> cache
      in case outcome h of
           Inl e \<Rightarrow> h
         | Inr markdownResponse \<Rightarrow>
             (case body markdownResponse of
                DemoPage _ \<Rightarrow> h\<lparr> outcome := Inl SyntaxError \<rparr>
              | JsonBody markdownJson \<Rightarrow>
                  h\<lparr> outcome := Inr
                      \<lparr> status = 200,
                        headers =
                          [''content-type'' \<mapsto> ''text/html'',
                           ''cache-control'' \<mapsto>
                             (case Response.headers markdownResponse ''cache-control'' of
                                None \<Rightarrow> ''no-cache''
                              | Some v \<Rightarrow> if v = [] then ''no-cache'' else v)],
                        body = DemoPage (htmlProp markdownJson) \<rparr> \<rparr>))"

definition renderDocs ::
  "'a Libraries \<Rightarrow> Upstream \<Rightarrow> nat \<Rightarrow> Request \<Rightarrow> 'a Cache \<Rightarrow> 'a Handled" where
  "renderDocs L U now request cache =
     renderShell L U now request ''/jacob-ebey/github-md/main/README.md'' cache"

text \<open>
  \<open>renderDemo\<close>: \<open>file\<close> is the pathname after \<open>/_demo\<close>, and the inner request is for
  \<open>new URL(file, domain)\<close>, of which \<open>renderMarkdown\<close> reads the pathname.
\<close>

definition renderDemo ::
  "'a Libraries \<Rightarrow> Upstream \<Rightarrow> nat \<Rightarrow> Request \<Rightarrow> 'a Cache \<Rightarrow> 'a Handled" where
  "renderDemo L U now request cache =
     (case URL_pathname L (drop (length ''/_demo'') (pathname request)) of
        Inl e \<Rightarrow> \<lparr> outcome = Inl e, fetched = [], waitUntil = [] \<rparr>
      | Inr file \<Rightarrow> renderShell L U now request file cache)"


definition internalServerError :: "'a Response" where
  "internalServerError =
     \<lparr> status = 500,
       headers = [''content-type'' \<mapsto> ''application/json''],
       body = JsonBody (ApiErrorJson ''Internal server error'') \<rparr>"

definition handleFetch ::
  "'a Libraries \<Rightarrow> Upstream \<Rightarrow> nat \<Rightarrow> Request \<Rightarrow> 'a Cache \<Rightarrow> 'a Handled" where
  "handleFetch L U now request cache =
     (case (if shouldSkipCache request then None else cache (url request)) of
        Some response \<Rightarrow> \<lparr> outcome = Inr response, fetched = [], waitUntil = [] \<rparr>
      | None \<Rightarrow>
          (let h = (if pathname request = ''/'' then renderDocs L U now request cache
                    else if startsWith (pathname request) ''/_demo/''
                    then renderDemo L U now request cache
                    else if length (segments (pathname request)) = 3
                    then renderFiles U now request cache
                    else renderMarkdown L U now request cache)
           in case outcome h of
                Inl e \<Rightarrow> h\<lparr> outcome := Inr internalServerError \<rparr>
              | Inr response \<Rightarrow>
                  h\<lparr> waitUntil := waitUntil h @ [PutResponse (url request) response] \<rparr>))"

section \<open>Background work\<close>

text \<open>
  A task runs to its end after the response; \<open>now\<close> is \<open>Date.now()\<close> when it comes to
  write. A regeneration whose producer resolves with \<open>null\<close>, or throws, writes nothing:
  \<open>toCache && writeToCache(key, toCache)\<close>. \<open>caches.default.put(url, response)\<close> stores
  the response under the URL, as the Cache API does; for how long the platform keeps a
  response that carries no \<open>Cache-Control\<close> header is not in the source.
\<close>

fun runTask :: "'a Libraries \<Rightarrow> Upstream \<Rightarrow> nat \<Rightarrow> 'a Task \<Rightarrow> 'a Cache \<Rightarrow> 'a Cache" where
  "runTask L U now (WriteToCache key v) cache = writeToCache now key v cache"
| "runTask L U now (RegenerateMarkdown key p) cache =
     (case createNewCacheEntry L U p of
        Inr (Some toCache) \<Rightarrow> writeToCache now key (ApiDataJson toCache) cache
      | _ \<Rightarrow> cache)"
| "runTask L U now (RegenerateFiles key user repo ref) cache =
     (case createNewFilesCacheEntry U user repo ref of
        Some toCache \<Rightarrow> writeToCache now key (CachedFilesJson toCache) cache
      | None \<Rightarrow> cache)"
| "runTask L U now (PutResponse u response) cache = cache(u \<mapsto> response)"

fun runTasks ::
  "'a Libraries \<Rightarrow> Upstream \<Rightarrow> (nat \<times> 'a Task) list \<Rightarrow> 'a Cache \<Rightarrow> 'a Cache" where
  "runTasks L U [] cache = cache"
| "runTasks L U ((now, task) # rest) cache = runTasks L U rest (runTask L U now task cache)"

text \<open>The upstream requests a task issues.\<close>

fun taskFetches :: "'a Task \<Rightarrow> UpstreamRequest list" where
  "taskFetches (WriteToCache key v) = []"
| "taskFetches (RegenerateMarkdown key p) = [RawContent p]"
| "taskFetches (RegenerateFiles key user repo ref) = [TreeListing user repo ref]"
| "taskFetches (PutResponse u response) = []"

section \<open>The listing filter in the words of the specification\<close>

text \<open>
  The specification keeps the blobs "whose path ends in \<open>.md\<close> (case-insensitive)":
  the last three characters are a dot, then \<open>m\<close> or \<open>M\<close>, then \<open>d\<close> or \<open>D\<close>. The
  source tests \<open>path.toLocaleLowerCase().endsWith(".md")\<close>; the two are compared below.
\<close>

definition markdownSuffix :: "string \<Rightarrow> bool" where
  "markdownSuffix p =
     (case rev p of
        d # m # dot # _ \<Rightarrow>
          dot = CHR ''.'' \<and> m \<in> {CHR ''m'', CHR ''M''} \<and> d \<in> {CHR ''d'', CHR ''D''}
      | _ \<Rightarrow> False)"

section \<open>Sample inputs\<close>

text \<open>
  Concrete libraries, upstreams, requests and caches on which the theorems below are
  run. \<open>sampleMarked\<close> holds the HTML that the renderer gives for two markdown texts
  (an image, and a raw HTML block with a script and a \<open>javascript:\<close> link); every
  other text is one paragraph; the line break that ends a rendered block is left out.
  The sample documents have no front matter, and no line of them holds two colons, so
  the emoji pass leaves them as they are. The sample paths are plain absolute paths,
  which the URL parser returns as they are.
\<close>

definition sampleMarked :: "string \<Rightarrow> node list" where
  "sampleMarked s =
     (case map_of
        [(''![a](https://example.com/a.png)'',
          [Element ''p'' []
             [Element ''img'' [(''src'', ''https://example.com/a.png''), (''alt'', ''a'')] []]]),
         (''<div><script>alert(1)</script><a href=JaVaScRiPt:alert(1)>x</a></div>'',
          [Element ''div'' []
             [Element ''script'' [] [Text ''alert(1)''],
              Element ''a'' [(''href'', ''JaVaScRiPt:alert(1)'')] [Text ''x'']]])] s of
        Some rendered \<Rightarrow> rendered
      | None \<Rightarrow> [Element ''p'' [] [Text s]])"

definition sampleLibraries :: "(string \<times> string) list Libraries" where
  "sampleLibraries =
     \<lparr> frontmatter = (\<lambda>s. Inr (s, [])),
       replace_emoji = (\<lambda>s. s),
       marked = (\<lambda>s. Inr (sampleMarked s)),
       URL_pathname = (\<lambda>file. Inr file) \<rparr>"

definition scriptMarkdown :: string where
  "scriptMarkdown = ''<div><script>alert(1)</script><a href=JaVaScRiPt:alert(1)>x</a></div>''"

definition imageDocument :: "(string \<times> string) list ApiData" where
  "imageDocument =
     \<lparr> attributes = [],
       html = [Element ''p'' []
                 [Element ''img'' [(''src'', ''https://example.com/a.png''),
                                   (''alt'', ''a'')] []]] \<rparr>"

definition sampleTree :: GitTree where
  "sampleTree =
     \<lparr> GitTree.sha = ''c0ffee'',
       tree =
         [\<lparr> TreeItem.path = ''README.md'', type = ''blob'', sha = ''a1'' \<rparr>,
          \<lparr> TreeItem.path = ''README.MD'', type = ''blob'', sha = ''b2'' \<rparr>,
          \<lparr> TreeItem.path = ''notes.md'', type = ''tree'', sha = ''c3'' \<rparr>,
          \<lparr> TreeItem.path = ''src/index.ts'', type = ''blob'', sha = ''d4'' \<rparr>,
          \<lparr> TreeItem.path = ''docs/a.markdown'', type = ''blob'', sha = ''e5'' \<rparr>] \<rparr>"

definition sampleListing :: CachedFiles where
  "sampleListing =
     \<lparr> CachedFiles.sha = ''c0ffee'',
       files = [\<lparr> CachedFile.path = ''README.md'', sha = ''a1'' \<rparr>,
                \<lparr> CachedFile.path = ''README.MD'', sha = ''b2'' \<rparr>] \<rparr>"

definition sampleUpstream :: Upstream where
  "sampleUpstream =
     \<lparr> raw = (\<lambda>p. if p = ''/owner/repo/main/README.md''
                   then \<lparr> ok = True, content = ''![a](https://example.com/a.png)'' \<rparr>
                   else \<lparr> ok = False, content = ''404: Not Found'' \<rparr>),
       trees = (\<lambda>user repo ref.
                  if user = ''owner'' \<and> repo = ''repo'' \<and> ref = ''main''
                  then \<lparr> ok = True, content = sampleTree \<rparr>
                  else \<lparr> ok = False, content = \<lparr> GitTree.sha = [], tree = [] \<rparr> \<rparr>) \<rparr>"

definition failingUpstream :: Upstream where
  "failingUpstream =
     \<lparr> raw = (\<lambda>p. \<lparr> ok = False, content = ''404: Not Found'' \<rparr>),
       trees = (\<lambda>user repo ref.
                  \<lparr> ok = False, content = \<lparr> GitTree.sha = [], tree = [] \<rparr> \<rparr>) \<rparr>"

definition sampleRequest :: "string \<Rightarrow> Headers \<Rightarrow> Request" where
  "sampleRequest p hs =
     \<lparr> origin = ''https://github-md.com'', pathname = p, search = [], headers = hs \<rparr>"

definition readmeRequest :: Request where
  "readmeRequest = sampleRequest ''/owner/repo/main/README.md'' Map.empty"

definition listingRequest :: Request where
  "listingRequest = sampleRequest ''/owner/repo/main'' Map.empty"

definition noCacheRequest :: Request where
  "noCacheRequest =
     sampleRequest ''/owner/repo/main/README.md'' [''cache-control'' \<mapsto> ''no-cache'']"

definition pragmaListingRequest :: Request where
  "pragmaListingRequest = sampleRequest ''/owner/repo/main'' [''pragma'' \<mapsto> ''No-Cache'']"

definition oldDocument :: "(string \<times> string) list Json" where
  "oldDocument = ApiDataJson \<lparr> attributes = [], html = [Element ''p'' [] [Text ''old'']] \<rparr>"

definition oldListing :: "(string \<times> string) list Json" where
  "oldListing = CachedFilesJson \<lparr> CachedFiles.sha = ''0ld'', files = [] \<rparr>"


text \<open>
  A cache holding a document and a listing, both written at time \<open>1000\<close>, and a cache
  whose document entry carries no \<open>Stale-At\<close> header.
\<close>

definition sampleCache :: "(string \<times> string) list Cache" where
  "sampleCache =
     writeToCache 1000 ''files/owner/repo/main'' oldListing
       (writeToCache 1000 ''json-swr/owner/repo/main/README.md'' oldDocument Map.empty)"

definition unstampedCache :: "(string \<times> string) list Cache" where
  "unstampedCache =
     [''kv://json-swr/owner/repo/main/README.md'' \<mapsto>
        \<lparr> status = 200, headers = [''content-type'' \<mapsto> ''application/json''],
          body = JsonBody oldDocument \<rparr>]"


section \<open>Numerals written and read back\<close>

lemma decimal_digit: "n < 10 \<Longrightarrow> decimal n = [digit_char n]"
  by (simp add: decimal.simps)

lemma decimal_more:
  "\<not> n < 10 \<Longrightarrow> decimal n = decimal (n div 10) @ [digit_char (n mod 10)]"
  by (subst decimal.simps) simp

lemma decimal_not_empty: "decimal n \<noteq> []"
  by (subst decimal.simps) simp

lemma digit_value_digit_char: "d < 10 \<Longrightarrow> digit_value (digit_char d) = Some d"
proof -
  assume "d < 10"
  then have "d \<in> {0, 1, 2, 3, 4, 5, 6, 7, 8, 9}" by auto
  then show ?thesis
    by (auto simp: digit_value_def digit_char_def)
qed

lemma digits_value_append:
  "digits_value acc (xs @ [c]) =
     (case digits_value acc xs of
        None \<Rightarrow> None
      | Some v \<Rightarrow> (case digit_value c of None \<Rightarrow> None | Some d \<Rightarrow> Some (10 * v + d)))"
  by (induction xs arbitrary: acc) (auto split: option.splits)

lemma digits_value_decimal: "digits_value 0 (decimal n) = Some n"
proof (induction n rule: decimal.induct)
  case (1 n)
  show ?case
  proof (cases "n < 10")
    case True
    then show ?thesis by (simp add: decimal_digit digit_value_digit_char)
  next
    case False
    then have "digits_value 0 (decimal (n div 10)) = Some (n div 10)"
      using "1" by simp
    with False show ?thesis
      by (simp add: decimal_more digits_value_append digit_value_digit_char)
  qed
qed

lemma Number_of_decimal: "Number_of_string (decimal n) = Num n"
  by (simp add: Number_of_string_def digits_value_decimal)

lemma max_age_text: "decimal STALE_FOR_SECONDS = ''172800''"
  by (simp add: STALE_FOR_SECONDS_def decimal_digit decimal_more digit_char_def)


lemma readFromCache_writeToCache:
  "readFromCache (writeToCache now key v cache) key =
     Inr (Some \<lparr> data = v, staleAt = Num (now + REVALIDATE_AFTER_MS) \<rparr>)"
  by (simp add: readFromCache_def writeToCache_def Number_of_decimal decimal_not_empty)

section \<open>A bypass directive in a header\<close>

lemma startsWith_append: "startsWith (p @ rest) p"
  by (induction p) simp_all

lemma includes_str_append: "includes_str (before @ sub @ rest) sub"
proof (induction before)
  case Nil
  show ?case
    by (cases "sub @ rest") (use startsWith_append [of sub rest] in auto)
next
  case (Cons c before)
  then show ?case by simp
qed

lemma no_cache_directive_skips:
  assumes "Request.headers request name = Some (before @ directive @ rest)"
    and "toLowerCase directive = ''no-cache''"
    and "name = ''cache-control'' \<or> name = ''pragma''"
  shows "shouldSkipCache request"
proof -
  have "includes_str (toLowerCase (before @ directive @ rest)) ''no-cache''"
    using includes_str_append [of "toLowerCase before" "''no-cache''" "toLowerCase rest"]
      assms(2) by (simp add: toLowerCase_def)
  then show ?thesis
    using assms(1,3) by (auto simp: shouldSkipCache_def)
qed

section \<open>Facts about the sanitizer options\<close>

lemma options_mode: "disallowedTagsMode sanitizeOptions = discard"
  by (simp add: sanitizeOptions_def)

lemma options_schemes:
  "allowedSchemes sanitizeOptions = [''http'', ''https'', ''ftp'', ''mailto'', ''tel'']"
  "allowedSchemesByTag sanitizeOptions = []"
  "allowedSchemesAppliedToAttributes sanitizeOptions = [''href'', ''src'', ''cite'']"
  "allowProtocolRelative sanitizeOptions"
  by (simp_all add: sanitizeOptions_def)

lemma options_attributes:
  "allowedAttributes sanitizeOptions =
         [(''*'', [''class'', ''id'', ''style'']),
          (''a'', [''href'', ''name'', ''target'']),
          (''img'', [''src'', ''srcset'', ''alt'', ''title'', ''width'', ''height'',
                    ''loading''])]"
  by (simp add: sanitizeOptions_def)

lemma script_not_allowed: "''script'' \<notin> set (allowedTags sanitizeOptions)"
  by (simp add: sanitizeOptions_def)

lemma img_allowed: "''img'' \<in> set (allowedTags sanitizeOptions)"
  by (simp add: sanitizeOptions_def)

lemma div_a_p_allowed:
  "''div'' \<in> set (allowedTags sanitizeOptions)"
  "''a'' \<in> set (allowedTags sanitizeOptions)"
  "''p'' \<in> set (allowedTags sanitizeOptions)"
  by (simp_all add: sanitizeOptions_def)

lemma sanitize_node_tags:
  assumes "disallowedTagsMode opts = discard"
  shows "set (concat (map node_tags (sanitize_node opts n))) \<subseteq> set (allowedTags opts)"
proof (induction n)
  case (Element name attribs children)
  then have "set (concat (map node_tags (concat (map (sanitize_node opts) children))))
      \<subseteq> set (allowedTags opts)"
    by fastforce
  then show ?case
    using assms by simp
qed simp_all

lemma sanitize_node_attribs:
  "set (concat (map node_attribs (sanitize_node opts n)))
     \<subseteq> {(tag, a, v). keepAttribute opts tag (a, v)}"
proof (induction n)
  case (Element name attribs children)
  then have "set (concat (map node_attribs (concat (map (sanitize_node opts) children))))
      \<subseteq> {(tag, a, v). keepAttribute opts tag (a, v)}"
    by fastforce
  then show ?case
    by auto
qed simp_all

lemma sanitize_tags:
  "t \<in> set (tags_of (sanitize h sanitizeOptions)) \<Longrightarrow> t \<in> set (allowedTags sanitizeOptions)"
proof -
  assume "t \<in> set (tags_of (sanitize h sanitizeOptions))"
  then obtain n where "n \<in> set h"
    and "t \<in> set (concat (map node_tags (sanitize_node sanitizeOptions n)))"
    by (auto simp: tags_of_def sanitize_def)
  then show ?thesis
    using sanitize_node_tags [OF options_mode] by blast
qed

lemma sanitize_attribs:
  "(tag, a, v) \<in> set (attribs_of (sanitize h sanitizeOptions)) \<Longrightarrow>
   keepAttribute sanitizeOptions tag (a, v)"
proof -
  assume "(tag, a, v) \<in> set (attribs_of (sanitize h sanitizeOptions))"
  then obtain n where "n \<in> set h"
    and "(tag, a, v) \<in> set (concat (map node_attribs (sanitize_node sanitizeOptions n)))"
    by (auto simp: attribs_of_def sanitize_def)
  then show ?thesis
    using sanitize_node_attribs by blast
qed

lemma kept_url_scheme:
  assumes "keepAttribute sanitizeOptions tag (a, v)" and "a \<in> {''href'', ''src'', ''cite''}"
  shows "url_scheme v = None
       \<or> (\<exists>s. url_scheme v = Some s \<and> s \<in> set (allowedSchemes sanitizeOptions))"
proof -
  from assms have "\<not> naughtyHref sanitizeOptions tag v"
    by (auto simp: keepAttribute_def options_schemes)
  then show ?thesis
    by (cases "url_scheme v") (simp_all add: naughtyHref_def options_schemes(2))
qed

lemma parseMarkdown_html:
  "parseMarkdown L markdown = Inr parsed \<Longrightarrow>
   \<exists>rendered. html parsed = sanitize rendered sanitizeOptions"
  by (auto simp: parseMarkdown_def split: sum.splits prod.splits)

section \<open>Facts about the listing filter\<close>

lemma lower_char_m: "lower_char c = CHR ''m'' \<longleftrightarrow> c = CHR ''m'' \<or> c = CHR ''M''"
  by (auto simp: lower_char_def split: if_splits)

lemma lower_char_d: "lower_char c = CHR ''d'' \<longleftrightarrow> c = CHR ''d'' \<or> c = CHR ''D''"
  by (auto simp: lower_char_def split: if_splits)

lemma lower_char_dot: "lower_char c = CHR ''.'' \<longleftrightarrow> c = CHR ''.''"
  by (auto simp: lower_char_def split: if_splits)

lemma endsWith_md: "endsWith (toLowerCase p) ''.md'' = markdownSuffix p"
proof -
  have "startsWith (map lower_char xs) ''dm.'' =
          (case xs of
             d # m # dot # _ \<Rightarrow>
               dot = CHR ''.'' \<and> m \<in> {CHR ''m'', CHR ''M''} \<and> d \<in> {CHR ''d'', CHR ''D''}
           | _ \<Rightarrow> False)" for xs
    by (auto simp: lower_char_m lower_char_d lower_char_dot split: list.splits)
  then show ?thesis
    by (simp add: endsWith_def toLowerCase_def markdownSuffix_def rev_map)
qed

lemma foldl_push:
  "foldl (\<lambda>acc item. if P item then acc @ [f item] else acc) start items =
     start @ map f (filter P items)"
  by (induction items arbitrary: start) simp_all

lemma markdownSuffix_samples:
  "markdownSuffix ''README.md''" "markdownSuffix ''README.MD''" "markdownSuffix ''notes.md''"
  "\<not> markdownSuffix ''src/index.ts''" "\<not> markdownSuffix ''docs/a.markdown''"
  by (simp_all add: markdownSuffix_def)

section \<open>The sample inputs evaluated\<close>

lemma url_scheme_sample: "url_scheme ''JaVaScRiPt:alert(1)'' = Some ''javascript''"
  by (simp add: url_scheme_def scheme_letter_def scheme_char_def toLowerCase_def lower_char_def)

lemma url_scheme_https: "url_scheme ''https://example.com/a.png'' = Some ''https''"
  by (simp add: url_scheme_def scheme_letter_def scheme_char_def toLowerCase_def lower_char_def)

lemma sampleMarked_script:
  "sampleMarked scriptMarkdown =
     [Element ''div'' []
        [Element ''script'' [] [Text ''alert(1)''],
         Element ''a'' [(''href'', ''JaVaScRiPt:alert(1)'')] [Text ''x'']]]"
  by (simp add: sampleMarked_def scriptMarkdown_def)

lemma sampleMarked_image:
  "sampleMarked ''![a](https://example.com/a.png)'' =
     [Element ''p'' []
        [Element ''img'' [(''src'', ''https://example.com/a.png''), (''alt'', ''a'')] []]]"
  by (simp add: sampleMarked_def)

lemma keep_href_sample:
  "\<not> keepAttribute sanitizeOptions ''a'' (''href'', ''JaVaScRiPt:alert(1)'')"
  by (simp add: keepAttribute_def naughtyHref_def url_scheme_sample options_schemes)

lemma keep_img_sample:
  "keepAttribute sanitizeOptions ''img'' (''src'', ''https://example.com/a.png'')"
  "keepAttribute sanitizeOptions ''img'' (''alt'', ''a'')"
  by (simp_all add: keepAttribute_def naughtyHref_def url_scheme_https options_schemes
      allowedAttributesFor_def options_attributes)

lemma sanitize_script_sample:
  "sanitize
     [Element ''div'' []
        [Element ''script'' [] [Text ''alert(1)''],
         Element ''a'' [(''href'', ''JaVaScRiPt:alert(1)'')] [Text ''x'']]] sanitizeOptions =
   [Element ''div'' [] [Element ''a'' [] [Text ''x'']]]"
  by (simp add: sanitize_def div_a_p_allowed script_not_allowed options_mode nonTextTags_def
      keep_href_sample)

lemma sanitize_image_sample:
  "sanitize
     [Element ''p'' []
        [Element ''img'' [(''src'', ''https://example.com/a.png''), (''alt'', ''a'')] []]]
     sanitizeOptions =
   [Element ''p'' []
        [Element ''img'' [(''src'', ''https://example.com/a.png''), (''alt'', ''a'')] []]]"
  by (simp add: sanitize_def div_a_p_allowed img_allowed keep_img_sample)

lemma parse_script_sample:
  "parseMarkdown sampleLibraries scriptMarkdown =
     Inr \<lparr> attributes = [], html = [Element ''div'' [] [Element ''a'' [] [Text ''x'']]] \<rparr>"
  by (simp add: parseMarkdown_def sampleLibraries_def sampleMarked_script sanitize_script_sample)

lemma parse_image_sample:
  "parseMarkdown sampleLibraries ''![a](https://example.com/a.png)'' =
     Inr \<lparr> attributes = [],
           html = [Element ''p'' []
                     [Element ''img'' [(''src'', ''https://example.com/a.png''),
                                       (''alt'', ''a'')] []]] \<rparr>"
  by (simp add: parseMarkdown_def sampleLibraries_def sampleMarked_image sanitize_image_sample)

lemma produce_readme:
  "createNewCacheEntry sampleLibraries sampleUpstream ''/owner/repo/main/README.md'' =
     Inr (Some imageDocument)"
  by (simp add: createNewCacheEntry_def sampleUpstream_def parse_image_sample imageDocument_def)

lemma produce_listing:
  "createNewFilesCacheEntry sampleUpstream ''owner'' ''repo'' ''main'' = Some sampleListing"
  by (simp add: createNewFilesCacheEntry_def sampleUpstream_def sampleTree_def Let_def
      endsWith_md markdownSuffix_samples sampleListing_def)

lemma failing_producers:
  "createNewCacheEntry sampleLibraries failingUpstream p = Inr None"
  "createNewFilesCacheEntry failingUpstream user repo ref = None"
  by (simp_all add: createNewCacheEntry_def createNewFilesCacheEntry_def failingUpstream_def)

lemma shouldSkipCache_plain: "\<not> shouldSkipCache (sampleRequest p Map.empty)"
  by (simp add: shouldSkipCache_def sampleRequest_def)

lemma read_sample_document:
  "readFromCache sampleCache ''json-swr/owner/repo/main/README.md'' =
     Inr (Some \<lparr> data = oldDocument, staleAt = Num 301000 \<rparr>)"
  unfolding sampleCache_def
  by (simp add: readFromCache_def writeToCache_def Number_of_decimal decimal_not_empty REVALIDATE_AFTER_MS_def)

lemma read_sample_listing:
  "readFromCache sampleCache ''files/owner/repo/main'' =
     Inr (Some \<lparr> data = oldListing, staleAt = Num 301000 \<rparr>)"
  unfolding sampleCache_def
  by (simp add: readFromCache_def writeToCache_def Number_of_decimal decimal_not_empty REVALIDATE_AFTER_MS_def)

lemma readme_route:
  "pathname readmeRequest \<noteq> ''/'' \<and> \<not> startsWith (pathname readmeRequest) ''/_demo/''
   \<and> length (segments (pathname readmeRequest)) \<noteq> 3 \<and> \<not> shouldSkipCache readmeRequest
   \<and> url readmeRequest = ''https://github-md.com/owner/repo/main/README.md''"
  by (simp add: readmeRequest_def sampleRequest_def segments_def shouldSkipCache_def url_def)

lemma readme_path: "pathname readmeRequest = ''/owner/repo/main/README.md''"
  by (simp add: readmeRequest_def sampleRequest_def)

lemma listing_segments: "segments ''/owner/repo/main'' = [''owner'', ''repo'', ''main'']"
  by (simp add: segments_def)

lemma listing_route:
  "pathname listingRequest = ''/owner/repo/main''
   \<and> segments (pathname listingRequest) = [''owner'', ''repo'', ''main'']
   \<and> \<not> shouldSkipCache listingRequest
   \<and> url listingRequest = ''https://github-md.com/owner/repo/main''"
  by (simp add: listingRequest_def sampleRequest_def segments_def shouldSkipCache_def url_def)

lemma listing_pieces:
  "piece (segments (pathname listingRequest)) 0 = ''owner''"
  "piece (segments (pathname listingRequest)) 1 = ''repo''"
  "piece (segments (pathname listingRequest)) 2 = ''main''"
  by (simp_all add: listing_route listing_segments piece_def)

lemma read_readme:
  "readFromCache sampleCache (''json-swr'' @ pathname readmeRequest) =
     Inr (Some \<lparr> data = oldDocument, staleAt = Num 301000 \<rparr>)"
  using read_sample_document by (simp add: readme_path)

lemma read_listing:
  "readFromCache sampleCache (''files'' @ pathname listingRequest) =
     Inr (Some \<lparr> data = oldListing, staleAt = Num 301000 \<rparr>)"
  using read_sample_listing by (simp add: listing_route)

lemma no_cache_paths:
  "pathname noCacheRequest = ''/owner/repo/main/README.md''"
  "pathname pragmaListingRequest = ''/owner/repo/main''"
  by (simp_all add: noCacheRequest_def pragmaListingRequest_def sampleRequest_def)

section \<open>Images and the allowed tags\<close>

text \<open>
  C1: the specification has no \<open>img\<close> element in the HTML of \<open>parseMarkdown\<close>, for any
  markdown, because \<open>img\<close> is not in the sanitizer's allowed-tag list; the comment on the
  \<open>img\<close> attributes in the options says the same. The list of the options does hold
  \<open>img\<close>, and the markdown image \<open>![a](https://example.com/a.png)\<close>, which the
  renderer puts into a paragraph, comes out of \<open>parseMarkdown\<close> with its \<open>img\<close> element
  and both attributes in place.
\<close>

theorem image_markdown_keeps_img:
  "''img'' \<in> set (allowedTags sanitizeOptions)
   \<and> parseMarkdown sampleLibraries ''![a](https://example.com/a.png)'' =
       Inr \<lparr> attributes = [],
             html = [Element ''p'' []
                       [Element ''img'' [(''src'', ''https://example.com/a.png''),
                                         (''alt'', ''a'')] []]] \<rparr>
   \<and> ''img'' \<in> set (tags_of [Element ''p'' []
                       [Element ''img'' [(''src'', ''https://example.com/a.png''),
                                         (''alt'', ''a'')] []]])"
  using img_allowed parse_image_sample by (simp add: tags_of_def)

section \<open>A failed upstream fetch\<close>

text \<open>
  C2: the specification has a request whose upstream fetch returns a non-success
  status answered 404 with the body \<open>{"error":"Not found"}\<close>, with no cache entry
  created or left behind, in the key-value cache or anywhere else a later request can
  observe. What the handler does on a document or listing path that bypasses the caches
  or misses them: it answers that 404 after the one fetch and schedules no key-value
  write, but it hands the platform the put of the 404 itself under the request URL,
  as for every response, with no check of the status. Once that put is done, a later
  request for the same URL without a bypass directive is answered with the stored 404
  and no upstream fetch, whatever the upstream holds by then.
\<close>

theorem failed_fetch_response_is_stored:
  assumes "pathname request \<noteq> ''/''" and "\<not> startsWith (pathname request) ''/_demo/''"
    and "\<not> shouldSkipCache request'" and "url request' = url request"
  shows "(length (segments (pathname request)) \<noteq> 3
          \<and> (shouldSkipCache request
              \<or> cache (url request) = None
                \<and> readFromCache cache (''json-swr'' @ pathname request) = Inr None)
          \<and> \<not> ok (raw U (pathname request)) \<longrightarrow>
           handleFetch L U now request cache =
             \<lparr> outcome = Inr notFound, fetched = [RawContent (pathname request)],
               waitUntil = [PutResponse (url request) notFound] \<rparr>
           \<and> handleFetch L' U' now' request'
                 (runTasks L U (map (Pair t) (waitUntil (handleFetch L U now request cache)))
                    cache) =
               \<lparr> outcome = Inr notFound, fetched = [], waitUntil = [] \<rparr>)
       \<and> (length (segments (pathname request)) = 3
          \<and> (shouldSkipCache request
              \<or> cache (url request) = None
                \<and> readFromCache cache (''files'' @ pathname request) = Inr None)
          \<and> \<not> ok (trees U (piece (segments (pathname request)) 0)
                     (piece (segments (pathname request)) 1)
                     (piece (segments (pathname request)) 2)) \<longrightarrow>
           handleFetch L U now request cache =
             \<lparr> outcome = Inr notFound,
               fetched = [TreeListing (piece (segments (pathname request)) 0)
                            (piece (segments (pathname request)) 1)
                            (piece (segments (pathname request)) 2)],
               waitUntil = [PutResponse (url request) notFound] \<rparr>
           \<and> handleFetch L' U' now' request'
                 (runTasks L U (map (Pair t) (waitUntil (handleFetch L U now request cache)))
                    cache) =
               \<lparr> outcome = Inr notFound, fetched = [], waitUntil = [] \<rparr>)"
proof -
  have md: "handleFetch L U now request cache =
             \<lparr> outcome = Inr notFound, fetched = [RawContent (pathname request)],
               waitUntil = [PutResponse (url request) notFound] \<rparr>"
    if "length (segments (pathname request)) \<noteq> 3"
      and "shouldSkipCache request
              \<or> cache (url request) = None
                \<and> readFromCache cache (''json-swr'' @ pathname request) = Inr None"
      and "\<not> ok (raw U (pathname request))"
    using assms(1,2) that
    by (auto simp: handleFetch_def renderMarkdown_def createNewCacheEntry_def Let_def)
  have fl: "handleFetch L U now request cache =
             \<lparr> outcome = Inr notFound,
               fetched = [TreeListing (piece (segments (pathname request)) 0)
                            (piece (segments (pathname request)) 1)
                            (piece (segments (pathname request)) 2)],
               waitUntil = [PutResponse (url request) notFound] \<rparr>"
    if "length (segments (pathname request)) = 3"
      and "shouldSkipCache request
              \<or> cache (url request) = None
                \<and> readFromCache cache (''files'' @ pathname request) = Inr None"
      and "\<not> ok (trees U (piece (segments (pathname request)) 0)
                     (piece (segments (pathname request)) 1)
                     (piece (segments (pathname request)) 2))"
    using assms(1,2) that
    by (auto simp: handleFetch_def renderFiles_def createNewFilesCacheEntry_def Let_def)
  have "next": "handleFetch L' U' now' request'
                 (runTasks L U [(t, PutResponse (url request) notFound)] cache) =
               \<lparr> outcome = Inr notFound, fetched = [], waitUntil = [] \<rparr>"
    using assms(3,4) by (simp add: handleFetch_def)
  show ?thesis
    using md fl "next" by simp
qed

text \<open>
  The theorem of C2 at the failing input: a document and a listing requested on an
  empty cache while the upstream answers with a non-success status, and requested again
  when the upstream has them.
\<close>

theorem failed_fetch_response_is_stored_witness:
  "\<not> ok (raw failingUpstream (pathname readmeRequest))
   \<and> handleFetch sampleLibraries failingUpstream 1000 readmeRequest Map.empty =
       \<lparr> outcome = Inr notFound, fetched = [RawContent ''/owner/repo/main/README.md''],
         waitUntil = [PutResponse ''https://github-md.com/owner/repo/main/README.md''
                        notFound] \<rparr>
   \<and> ok (raw sampleUpstream (pathname readmeRequest))
   \<and> handleFetch sampleLibraries sampleUpstream 2000 readmeRequest
        (runTasks sampleLibraries failingUpstream
           (map (Pair 1001)
              (waitUntil (handleFetch sampleLibraries failingUpstream 1000 readmeRequest
                            Map.empty)))
           Map.empty) =
       \<lparr> outcome = Inr notFound, fetched = [], waitUntil = [] \<rparr>
   \<and> \<not> ok (trees failingUpstream ''owner'' ''repo'' ''main'')
   \<and> handleFetch sampleLibraries failingUpstream 1000 listingRequest Map.empty =
       \<lparr> outcome = Inr notFound, fetched = [TreeListing ''owner'' ''repo'' ''main''],
         waitUntil = [PutResponse ''https://github-md.com/owner/repo/main'' notFound] \<rparr>
   \<and> ok (trees sampleUpstream ''owner'' ''repo'' ''main'')
   \<and> handleFetch sampleLibraries sampleUpstream 2000 listingRequest
        (runTasks sampleLibraries failingUpstream
           (map (Pair 1001)
              (waitUntil (handleFetch sampleLibraries failingUpstream 1000 listingRequest
                            Map.empty)))
           Map.empty) =
       \<lparr> outcome = Inr notFound, fetched = [], waitUntil = [] \<rparr>"
proof -
  have up: "\<not> ok (raw failingUpstream (pathname readmeRequest))"
    "ok (raw sampleUpstream (pathname readmeRequest))"
    "\<not> ok (trees failingUpstream ''owner'' ''repo'' ''main'')"
    "ok (trees sampleUpstream ''owner'' ''repo'' ''main'')"
    by (simp_all add: failingUpstream_def sampleUpstream_def readme_path)
  have route: "pathname readmeRequest \<noteq> ''/''"
    "\<not> startsWith (pathname readmeRequest) ''/_demo/''"
    "length (segments (pathname readmeRequest)) \<noteq> 3"
    "\<not> shouldSkipCache readmeRequest"
    using readme_route by simp_all
  have lroute: "pathname listingRequest \<noteq> ''/''"
    "\<not> startsWith (pathname listingRequest) ''/_demo/''"
    "length (segments (pathname listingRequest)) = 3"
    "\<not> shouldSkipCache listingRequest"
    using listing_route by (simp_all add: listing_segments)
  have ante: "length (segments (pathname readmeRequest)) \<noteq> 3
      \<and> (shouldSkipCache readmeRequest
          \<or> (Map.empty :: (string \<times> string) list Cache) (url readmeRequest) = None
            \<and> readFromCache (Map.empty :: (string \<times> string) list Cache)
                 (''json-swr'' @ pathname readmeRequest) = Inr None)
      \<and> \<not> ok (raw failingUpstream (pathname readmeRequest))"
    using route up by (simp add: readFromCache_def)
  have lante: "length (segments (pathname listingRequest)) = 3
      \<and> (shouldSkipCache listingRequest
          \<or> (Map.empty :: (string \<times> string) list Cache) (url listingRequest) = None
            \<and> readFromCache (Map.empty :: (string \<times> string) list Cache)
                 (''files'' @ pathname listingRequest) = Inr None)
      \<and> \<not> ok (trees failingUpstream (piece (segments (pathname listingRequest)) 0)
                 (piece (segments (pathname listingRequest)) 1)
                 (piece (segments (pathname listingRequest)) 2))"
    using lroute up listing_pieces by (simp add: readFromCache_def)
  note md = failed_fetch_response_is_stored
      [where request = readmeRequest and request' = readmeRequest
        and cache = "Map.empty :: (string \<times> string) list Cache"
        and L = sampleLibraries and U = failingUpstream and now = 1000
        and L' = sampleLibraries and U' = sampleUpstream and now' = 2000 and t = 1001,
        OF route(1) route(2) route(4) refl, THEN conjunct1, THEN mp, OF ante]
  note fl = failed_fetch_response_is_stored
      [where request = listingRequest and request' = listingRequest
        and cache = "Map.empty :: (string \<times> string) list Cache"
        and L = sampleLibraries and U = failingUpstream and now = 1000
        and L' = sampleLibraries and U' = sampleUpstream and now' = 2000 and t = 1001,
        OF lroute(1) lroute(2) lroute(4) refl, THEN conjunct2, THEN mp, OF lante]
  have a: "handleFetch sampleLibraries failingUpstream 1000 readmeRequest Map.empty =
       \<lparr> outcome = Inr notFound, fetched = [RawContent ''/owner/repo/main/README.md''],
         waitUntil = [PutResponse ''https://github-md.com/owner/repo/main/README.md''
                        notFound] \<rparr>"
    using md [THEN conjunct1] readme_route by (simp add: readme_path)
  have b: "handleFetch sampleLibraries failingUpstream 1000 listingRequest Map.empty =
       \<lparr> outcome = Inr notFound, fetched = [TreeListing ''owner'' ''repo'' ''main''],
         waitUntil = [PutResponse ''https://github-md.com/owner/repo/main'' notFound] \<rparr>"
    using fl [THEN conjunct1] listing_route listing_pieces
    by (simp add: listing_segments)
  show ?thesis
    using a b md [THEN conjunct2] fl [THEN conjunct2] up by simp
qed

section \<open>Reading a stale entry\<close>

text \<open>
  C3 as the specification states it: a read without a bypass directive at
  \<open>staleAt \<le> now\<close>, the boundary \<open>now = staleAt\<close> included, returns the old payload and
  triggers exactly one regeneration. The source compares \<open>cached.staleAt < now\<close>: at
  \<open>now = staleAt = 301000\<close> the entry is served and nothing is scheduled.
\<close>

theorem boundary_read_counterexample:
  "readFromCache sampleCache ''json-swr/owner/repo/main/README.md'' =
     Inr (Some \<lparr> data = oldDocument, staleAt = Num 301000 \<rparr>)
   \<and> \<not> shouldSkipCache (sampleRequest ''/owner/repo/main/README.md'' Map.empty)
   \<and> renderMarkdown sampleLibraries sampleUpstream 301000
        (sampleRequest ''/owner/repo/main/README.md'' Map.empty) sampleCache =
      \<lparr> outcome = Inr (jsonResponse oldDocument), fetched = [], waitUntil = [] \<rparr>"
proof -
  let ?r = "sampleRequest ''/owner/repo/main/README.md'' Map.empty"
  have "readFromCache sampleCache (''json-swr'' @ pathname ?r) =
          Inr (Some \<lparr> data = oldDocument, staleAt = Num 301000 \<rparr>)"
    using read_sample_document by (simp add: sampleRequest_def)
  then have "renderMarkdown sampleLibraries sampleUpstream 301000 ?r sampleCache =
      \<lparr> outcome = Inr (jsonResponse oldDocument), fetched = [], waitUntil = [] \<rparr>"
    by (simp add: renderMarkdown_def Let_def shouldSkipCache_plain)
  then show ?thesis
    by (simp add: read_sample_document shouldSkipCache_plain)
qed

text \<open>
  C3, amended: for every read without a bypass directive where an entry exists and
  \<open>staleAt < now\<close>, the operation returns the existing payload without awaiting any
  upstream fetch and hands the platform exactly one regeneration task, which issues
  exactly one upstream request. This holds for \<open>renderMarkdown\<close> and for \<open>renderFiles\<close>.
  (At \<open>now = staleAt\<close> the entry still counts as fresh.)
\<close>

theorem stale_read_one_regeneration:
  assumes "\<not> shouldSkipCache request" and "staleAt cached = Num s" and "s < now"
  shows "(readFromCache cache (''json-swr'' @ pathname request) = Inr (Some cached) \<longrightarrow>
           renderMarkdown L U now request cache =
             \<lparr> outcome = Inr (jsonResponse (data cached)), fetched = [],
               waitUntil = [RegenerateMarkdown (''json-swr'' @ pathname request)
                              (pathname request)] \<rparr>
           \<and> concat (map taskFetches (waitUntil (renderMarkdown L U now request cache))) =
               [RawContent (pathname request)])
       \<and> (readFromCache cache (''files'' @ pathname request) = Inr (Some cached) \<longrightarrow>
           renderFiles U now request cache =
             \<lparr> outcome = Inr (jsonResponse (data cached)), fetched = [],
               waitUntil = [RegenerateFiles (''files'' @ pathname request)
                              (piece (segments (pathname request)) 0)
                              (piece (segments (pathname request)) 1)
                              (piece (segments (pathname request)) 2)] \<rparr>
           \<and> concat (map taskFetches (waitUntil (renderFiles U now request cache))) =
               [TreeListing (piece (segments (pathname request)) 0)
                  (piece (segments (pathname request)) 1)
                  (piece (segments (pathname request)) 2)])"
  using assms by (simp add: renderMarkdown_def renderFiles_def Let_def)

text \<open>
  The theorem of C3 one millisecond after the staleness deadline, for the document and
  for the listing.
\<close>

theorem stale_read_one_regeneration_witness:
  "\<not> shouldSkipCache readmeRequest \<and> \<not> shouldSkipCache listingRequest
   \<and> (301000::nat) < 301001
   \<and> renderMarkdown sampleLibraries sampleUpstream 301001 readmeRequest sampleCache =
       \<lparr> outcome = Inr (jsonResponse oldDocument), fetched = [],
         waitUntil = [RegenerateMarkdown ''json-swr/owner/repo/main/README.md''
                        ''/owner/repo/main/README.md''] \<rparr>
   \<and> renderFiles sampleUpstream 301001 listingRequest sampleCache =
       \<lparr> outcome = Inr (jsonResponse oldListing), fetched = [],
         waitUntil = [RegenerateFiles ''files/owner/repo/main'' ''owner'' ''repo'' ''main''] \<rparr>"
proof -
  have skip: "\<not> shouldSkipCache readmeRequest" "\<not> shouldSkipCache listingRequest"
    using readme_route listing_route by simp_all
  have "renderMarkdown sampleLibraries sampleUpstream 301001 readmeRequest sampleCache =
       \<lparr> outcome = Inr (jsonResponse oldDocument), fetched = [],
         waitUntil = [RegenerateMarkdown ''json-swr/owner/repo/main/README.md''
                        ''/owner/repo/main/README.md''] \<rparr>"
    using stale_read_one_regeneration [where request = readmeRequest and now = 301001
        and s = 301000 and cached = "\<lparr> data = oldDocument, staleAt = Num 301000 \<rparr>"
        and cache = sampleCache and L = sampleLibraries and U = sampleUpstream]
      skip read_readme by (simp add: readme_path)
  moreover have "renderFiles sampleUpstream 301001 listingRequest sampleCache =
       \<lparr> outcome = Inr (jsonResponse oldListing), fetched = [],
         waitUntil = [RegenerateFiles ''files/owner/repo/main'' ''owner'' ''repo'' ''main''] \<rparr>"
    using stale_read_one_regeneration [where request = listingRequest and now = 301001
        and s = 301000 and cached = "\<lparr> data = oldListing, staleAt = Num 301000 \<rparr>"
        and cache = sampleCache and L = sampleLibraries and U = sampleUpstream]
      skip read_listing listing_pieces by (simp add: listing_route)
  ultimately show ?thesis using skip by simp
qed

section \<open>A regeneration that fails\<close>

text \<open>
  C4: for every stale read whose regeneration fails, that is whose producer resolves with
  \<open>null\<close> when the task runs, the response is the one built from the cached payload, and
  running the scheduled work leaves the cache as it was: nothing is written, and the
  stale entry is still there for the next read. This holds for \<open>renderMarkdown\<close> and for
  \<open>renderFiles\<close>; the upstream and the clock of the task (\<open>U'\<close>, \<open>t\<close>) need not be those
  of the request.
\<close>

theorem failed_regeneration_keeps_entry:
  assumes "\<not> shouldSkipCache request" and "staleAt cached = Num s" and "s < now"
  shows "(readFromCache cache (''json-swr'' @ pathname request) = Inr (Some cached)
          \<and> createNewCacheEntry L' U' (pathname request) = Inr None \<longrightarrow>
           outcome (renderMarkdown L U now request cache) = Inr (jsonResponse (data cached))
           \<and> runTasks L' U' (map (Pair t) (waitUntil (renderMarkdown L U now request cache)))
                cache = cache)
       \<and> (readFromCache cache (''files'' @ pathname request) = Inr (Some cached)
          \<and> createNewFilesCacheEntry U' (piece (segments (pathname request)) 0)
               (piece (segments (pathname request)) 1)
               (piece (segments (pathname request)) 2) = None \<longrightarrow>
           outcome (renderFiles U now request cache) = Inr (jsonResponse (data cached))
           \<and> runTasks L' U' (map (Pair t) (waitUntil (renderFiles U now request cache)))
                cache = cache)"
  using assms by (simp add: renderMarkdown_def renderFiles_def Let_def)

text \<open>
  The theorem of C4 on the sample cache, with an upstream that answers the request's
  regeneration with a non-success status.
\<close>

theorem failed_regeneration_keeps_entry_witness:
  "createNewCacheEntry sampleLibraries failingUpstream (pathname readmeRequest) = Inr None
   \<and> outcome (renderMarkdown sampleLibraries sampleUpstream 400000 readmeRequest sampleCache) =
       Inr (jsonResponse oldDocument)
   \<and> runTasks sampleLibraries failingUpstream
        (map (Pair 400500)
           (waitUntil (renderMarkdown sampleLibraries sampleUpstream 400000 readmeRequest
                         sampleCache)))
        sampleCache = sampleCache
   \<and> outcome (renderFiles sampleUpstream 400000 listingRequest sampleCache) =
       Inr (jsonResponse oldListing)
   \<and> runTasks sampleLibraries failingUpstream
        (map (Pair 400500) (waitUntil (renderFiles sampleUpstream 400000 listingRequest
                                         sampleCache)))
        sampleCache = sampleCache"
proof -
  have skip: "\<not> shouldSkipCache readmeRequest" "\<not> shouldSkipCache listingRequest"
    using readme_route listing_route by simp_all
  have md: "outcome (renderMarkdown sampleLibraries sampleUpstream 400000 readmeRequest
                      sampleCache) = Inr (jsonResponse oldDocument)
      \<and> runTasks sampleLibraries failingUpstream
        (map (Pair 400500)
           (waitUntil (renderMarkdown sampleLibraries sampleUpstream 400000 readmeRequest
                         sampleCache)))
        sampleCache = sampleCache"
    using failed_regeneration_keeps_entry [where request = readmeRequest and now = 400000
        and s = 301000 and cached = "\<lparr> data = oldDocument, staleAt = Num 301000 \<rparr>"
        and cache = sampleCache and L = sampleLibraries and U = sampleUpstream
        and L' = sampleLibraries and U' = failingUpstream and t = 400500]
      skip read_readme failing_producers by simp
  have fl: "outcome (renderFiles sampleUpstream 400000 listingRequest sampleCache) =
       Inr (jsonResponse oldListing)
      \<and> runTasks sampleLibraries failingUpstream
        (map (Pair 400500) (waitUntil (renderFiles sampleUpstream 400000 listingRequest
                                         sampleCache)))
        sampleCache = sampleCache"
    using failed_regeneration_keeps_entry [where request = listingRequest and now = 400000
        and s = 301000 and cached = "\<lparr> data = oldListing, staleAt = Num 301000 \<rparr>"
        and cache = sampleCache and L = sampleLibraries and U = sampleUpstream
        and L' = sampleLibraries and U' = failingUpstream and t = 400500]
      skip read_listing failing_producers by simp
  show ?thesis using md fl failing_producers by simp
qed

section \<open>Deadlines of a written entry\<close>

text \<open>
  C5: every entry that \<open>writeToCache\<close> writes at time \<open>now\<close> reads back with
  \<open>staleAt = now + REVALIDATE_AFTER_MS\<close>, five minutes, and carries
  \<open>max-age=172800\<close>, two days in seconds, so that it expires at \<open>now\<close> plus two days;
  the staleness deadline lies before the eviction deadline.
\<close>

theorem writeToCache_stale_before_expiry:
  "readFromCache (writeToCache now key v cache) key =
     Inr (Some \<lparr> data = v, staleAt = Num (now + REVALIDATE_AFTER_MS) \<rparr>)
   \<and> (\<exists>entry. writeToCache now key v cache (''kv://'' @ key) = Some entry
         \<and> Response.headers entry ''cache-control'' = Some ''public, max-age=172800, immutable'')
   \<and> REVALIDATE_AFTER_MS = 5 * 60 * 1000
   \<and> expiresAt now = now + 2 * 24 * 60 * 60 * 1000
   \<and> now + REVALIDATE_AFTER_MS < expiresAt now"
proof -
  have "\<exists>entry. writeToCache now key v cache (''kv://'' @ key) = Some entry
         \<and> Response.headers entry ''cache-control'' = Some ''public, max-age=172800, immutable''"
    by (simp add: writeToCache_def max_age_text)
  moreover have "now + REVALIDATE_AFTER_MS < expiresAt now"
    by (simp add: REVALIDATE_AFTER_MS_def expiresAt_def STALE_FOR_SECONDS_def)
  ultimately show ?thesis
    by (simp add: readFromCache_writeToCache REVALIDATE_AFTER_MS_def expiresAt_def STALE_FOR_SECONDS_def)
qed

text \<open>
  The theorem of C5 for an entry written at time \<open>1000\<close>.
\<close>

theorem writeToCache_stale_before_expiry_witness:
  "readFromCache
     (writeToCache 1000 ''json-swr/owner/repo/main/README.md'' oldDocument Map.empty)
     ''json-swr/owner/repo/main/README.md'' =
     Inr (Some \<lparr> data = oldDocument, staleAt = Num 301000 \<rparr>)
   \<and> expiresAt 1000 = 172801000
   \<and> (301000::nat) < 172801000"
  using writeToCache_stale_before_expiry
    [of 1000 "''json-swr/owner/repo/main/README.md''" oldDocument Map.empty]
  by (simp add: REVALIDATE_AFTER_MS_def)

section \<open>Bypassing the cache\<close>



text \<open>
  On a document or listing path the bypass works as the specification says: for every
  request whose \<open>Cache-Control\<close> or \<open>Pragma\<close> value holds \<open>no-cache\<close>, in any letter
  case and among any other directives, the handler awaits exactly one upstream fetch
  whatever the cache holds, and when the producer succeeds it answers with the fresh
  payload and schedules its write to the key-value cache (and the put of the response),
  after which the entry reads back with \<open>staleAt\<close> five minutes after the write.
\<close>

theorem bypass_on_document_and_listing_paths:
  assumes "Request.headers request name = Some (before @ directive @ rest)"
    and "toLowerCase directive = ''no-cache''"
    and "name = ''cache-control'' \<or> name = ''pragma''"
    and "pathname request \<noteq> ''/''" and "\<not> startsWith (pathname request) ''/_demo/''"
  shows "(length (segments (pathname request)) \<noteq> 3 \<longrightarrow>
           fetched (handleFetch L U now request cache) = [RawContent (pathname request)]
           \<and> (createNewCacheEntry L U (pathname request) = Inr (Some parsed) \<longrightarrow>
                handleFetch L U now request cache =
                  \<lparr> outcome = Inr (jsonResponse (ApiDataJson parsed)),
                    fetched = [RawContent (pathname request)],
                    waitUntil =
                      [WriteToCache (''json-swr'' @ pathname request) (ApiDataJson parsed),
                       PutResponse (url request) (jsonResponse (ApiDataJson parsed))] \<rparr>
                \<and> readFromCache
                     (runTask L U t
                        (WriteToCache (''json-swr'' @ pathname request) (ApiDataJson parsed))
                        cache)
                     (''json-swr'' @ pathname request) =
                    Inr (Some \<lparr> data = ApiDataJson parsed,
                                 staleAt = Num (t + REVALIDATE_AFTER_MS) \<rparr>)))
       \<and> (length (segments (pathname request)) = 3 \<longrightarrow>
           fetched (handleFetch L U now request cache) =
             [TreeListing (piece (segments (pathname request)) 0)
                (piece (segments (pathname request)) 1)
                (piece (segments (pathname request)) 2)]
           \<and> (createNewFilesCacheEntry U (piece (segments (pathname request)) 0)
                  (piece (segments (pathname request)) 1)
                  (piece (segments (pathname request)) 2) = Some listing \<longrightarrow>
                handleFetch L U now request cache =
                  \<lparr> outcome = Inr (jsonResponse (CachedFilesJson listing)),
                    fetched = [TreeListing (piece (segments (pathname request)) 0)
                                 (piece (segments (pathname request)) 1)
                                 (piece (segments (pathname request)) 2)],
                    waitUntil =
                      [WriteToCache (''files'' @ pathname request) (CachedFilesJson listing),
                       PutResponse (url request) (jsonResponse (CachedFilesJson listing))] \<rparr>
                \<and> readFromCache
                     (runTask L U t
                        (WriteToCache (''files'' @ pathname request) (CachedFilesJson listing))
                        cache)
                     (''files'' @ pathname request) =
                    Inr (Some \<lparr> data = CachedFilesJson listing,
                                 staleAt = Num (t + REVALIDATE_AFTER_MS) \<rparr>)))"
proof -
  have skip: "shouldSkipCache request"
    using assms(1,2,3) by (rule no_cache_directive_skips)
  have md: "renderMarkdown L U now request cache =
      (case createNewCacheEntry L U (pathname request) of
         Inl e \<Rightarrow> \<lparr> outcome = Inl e, fetched = [RawContent (pathname request)],
                    waitUntil = [] \<rparr>
       | Inr None \<Rightarrow> \<lparr> outcome = Inr notFound, fetched = [RawContent (pathname request)],
                    waitUntil = [] \<rparr>
       | Inr (Some parsed) \<Rightarrow>
           \<lparr> outcome = Inr (jsonResponse (ApiDataJson parsed)),
             fetched = [RawContent (pathname request)],
             waitUntil = [WriteToCache (''json-swr'' @ pathname request)
                            (ApiDataJson parsed)] \<rparr>)"
    using skip by (simp add: renderMarkdown_def Let_def split: sum.splits option.splits)
  have fl: "renderFiles U now request cache =
      (case createNewFilesCacheEntry U (piece (segments (pathname request)) 0)
              (piece (segments (pathname request)) 1)
              (piece (segments (pathname request)) 2) of
         None \<Rightarrow> \<lparr> outcome = Inr notFound,
                   fetched = [TreeListing (piece (segments (pathname request)) 0)
                             (piece (segments (pathname request)) 1)
                             (piece (segments (pathname request)) 2)],
                   waitUntil = [] \<rparr>
       | Some listing \<Rightarrow>
           \<lparr> outcome = Inr (jsonResponse (CachedFilesJson listing)),
             fetched = [TreeListing (piece (segments (pathname request)) 0)
                             (piece (segments (pathname request)) 1)
                             (piece (segments (pathname request)) 2)],
             waitUntil = [WriteToCache (''files'' @ pathname request)
                            (CachedFilesJson listing)] \<rparr>)"
    using skip by (simp add: renderFiles_def Let_def split: option.splits)
  have hmd: "handleFetch L U now request cache =
      (case outcome (renderMarkdown L U now request cache) of
         Inl e \<Rightarrow> (renderMarkdown L U now request cache)\<lparr> outcome := Inr internalServerError \<rparr>
       | Inr response \<Rightarrow>
           (renderMarkdown L U now request cache)
             \<lparr> waitUntil := waitUntil (renderMarkdown L U now request cache)
                             @ [PutResponse (url request) response] \<rparr>)"
    if "length (segments (pathname request)) \<noteq> 3"
    using skip assms(4,5) that by (simp add: handleFetch_def Let_def)
  have hfl: "handleFetch L U now request cache =
      (case outcome (renderFiles U now request cache) of
         Inl e \<Rightarrow> (renderFiles U now request cache)\<lparr> outcome := Inr internalServerError \<rparr>
       | Inr response \<Rightarrow>
           (renderFiles U now request cache)
             \<lparr> waitUntil := waitUntil (renderFiles U now request cache)
                             @ [PutResponse (url request) response] \<rparr>)"
    if "length (segments (pathname request)) = 3"
    using skip assms(4,5) that by (simp add: handleFetch_def Let_def)
  have a: "fetched (handleFetch L U now request cache) = [RawContent (pathname request)]"
    if "length (segments (pathname request)) \<noteq> 3"
    by (simp add: hmd [OF that] md split: sum.splits option.splits)
  have b: "handleFetch L U now request cache =
                  \<lparr> outcome = Inr (jsonResponse (ApiDataJson parsed)),
                    fetched = [RawContent (pathname request)],
                    waitUntil =
                      [WriteToCache (''json-swr'' @ pathname request) (ApiDataJson parsed),
                       PutResponse (url request) (jsonResponse (ApiDataJson parsed))] \<rparr>"
    if "length (segments (pathname request)) \<noteq> 3"
      and "createNewCacheEntry L U (pathname request) = Inr (Some parsed)"
    by (simp add: hmd [OF that(1)] md that(2))
  have c: "fetched (handleFetch L U now request cache) =
             [TreeListing (piece (segments (pathname request)) 0)
                (piece (segments (pathname request)) 1)
                (piece (segments (pathname request)) 2)]"
    if "length (segments (pathname request)) = 3"
    by (simp add: hfl [OF that] fl split: option.splits)
  have d: "handleFetch L U now request cache =
                  \<lparr> outcome = Inr (jsonResponse (CachedFilesJson listing)),
                    fetched = [TreeListing (piece (segments (pathname request)) 0)
                                 (piece (segments (pathname request)) 1)
                                 (piece (segments (pathname request)) 2)],
                    waitUntil =
                      [WriteToCache (''files'' @ pathname request) (CachedFilesJson listing),
                       PutResponse (url request) (jsonResponse (CachedFilesJson listing))] \<rparr>"
    if "length (segments (pathname request)) = 3"
      and "createNewFilesCacheEntry U (piece (segments (pathname request)) 0)
                  (piece (segments (pathname request)) 1)
                  (piece (segments (pathname request)) 2) = Some listing"
  proof -
    have "renderFiles U now request cache =
        \<lparr> outcome = Inr (jsonResponse (CachedFilesJson listing)),
          fetched = [TreeListing (piece (segments (pathname request)) 0)
                       (piece (segments (pathname request)) 1)
                       (piece (segments (pathname request)) 2)],
          waitUntil = [WriteToCache (''files'' @ pathname request)
                         (CachedFilesJson listing)] \<rparr>"
      using fl that(2) by simp
    then show ?thesis
      by (simp add: hfl [OF that(1)])
  qed
  show ?thesis
    using a b c d by (simp add: readFromCache_writeToCache)
qed

text \<open>
  The bypass on a document with a fresh cached entry, by \<open>Cache-Control: no-cache\<close>,
  and on a listing, by \<open>Pragma: No-Cache\<close>.
\<close>

theorem bypass_on_document_and_listing_paths_witness:
  "Request.headers noCacheRequest ''cache-control'' = Some ''no-cache''
   \<and> readFromCache sampleCache ''json-swr/owner/repo/main/README.md'' =
       Inr (Some \<lparr> data = oldDocument, staleAt = Num 301000 \<rparr>)
   \<and> handleFetch sampleLibraries sampleUpstream 2000 noCacheRequest sampleCache =
       \<lparr> outcome = Inr (jsonResponse (ApiDataJson imageDocument)),
         fetched = [RawContent ''/owner/repo/main/README.md''],
         waitUntil =
           [WriteToCache ''json-swr/owner/repo/main/README.md'' (ApiDataJson imageDocument),
            PutResponse ''https://github-md.com/owner/repo/main/README.md''
              (jsonResponse (ApiDataJson imageDocument))] \<rparr>
   \<and> Request.headers pragmaListingRequest ''pragma'' = Some ''No-Cache''
   \<and> handleFetch sampleLibraries sampleUpstream 2000 pragmaListingRequest sampleCache =
       \<lparr> outcome = Inr (jsonResponse (CachedFilesJson sampleListing)),
         fetched = [TreeListing ''owner'' ''repo'' ''main''],
         waitUntil =
           [WriteToCache ''files/owner/repo/main'' (CachedFilesJson sampleListing),
            PutResponse ''https://github-md.com/owner/repo/main''
              (jsonResponse (CachedFilesJson sampleListing))] \<rparr>"
proof -
  have hdr: "Request.headers noCacheRequest ''cache-control'' = Some ([] @ ''no-cache'' @ [])"
    "Request.headers pragmaListingRequest ''pragma'' = Some ([] @ ''No-Cache'' @ [])"
    by (simp_all add: noCacheRequest_def pragmaListingRequest_def sampleRequest_def)
  have low: "toLowerCase ''no-cache'' = ''no-cache''" "toLowerCase ''No-Cache'' = ''no-cache''"
    by (simp_all add: toLowerCase_def lower_char_def)
  have route: "pathname noCacheRequest \<noteq> ''/''"
    "\<not> startsWith (pathname noCacheRequest) ''/_demo/''"
    "length (segments (pathname noCacheRequest)) \<noteq> 3"
    "url noCacheRequest = ''https://github-md.com/owner/repo/main/README.md''"
    "pathname pragmaListingRequest \<noteq> ''/''"
    "\<not> startsWith (pathname pragmaListingRequest) ''/_demo/''"
    "length (segments (pathname pragmaListingRequest)) = 3"
    "url pragmaListingRequest = ''https://github-md.com/owner/repo/main''"
    by (simp_all add: no_cache_paths listing_segments segments_def noCacheRequest_def
        pragmaListingRequest_def sampleRequest_def url_def)
  have pieces: "piece (segments ''/owner/repo/main'') 0 = ''owner''"
    "piece (segments ''/owner/repo/main'') 1 = ''repo''"
    "piece (segments ''/owner/repo/main'') 2 = ''main''"
    by (simp_all add: listing_segments piece_def)
  have nm: "''cache-control'' = ''cache-control'' \<or> ''cache-control'' = ''pragma''"
    "''pragma'' = ''cache-control'' \<or> ''pragma'' = ''pragma''"
    by simp_all
  have made: "createNewCacheEntry sampleLibraries sampleUpstream (pathname noCacheRequest) =
      Inr (Some imageDocument)"
    "createNewFilesCacheEntry sampleUpstream
       (piece (segments (pathname pragmaListingRequest)) 0)
       (piece (segments (pathname pragmaListingRequest)) 1)
       (piece (segments (pathname pragmaListingRequest)) 2) = Some sampleListing"
    using produce_readme produce_listing pieces by (simp_all add: no_cache_paths)
  note md = bypass_on_document_and_listing_paths
      [where request = noCacheRequest and name = "''cache-control''" and before = "[]"
        and directive = "''no-cache''" and rest = "[]" and L = sampleLibraries
        and U = sampleUpstream and now = 2000 and cache = sampleCache
        and parsed = imageDocument and listing = sampleListing and t = 2050,
        OF hdr(1) low(1) nm(1) route(1) route(2), THEN conjunct1, THEN mp, OF route(3),
        THEN conjunct2, THEN mp, OF made(1), THEN conjunct1]
  have a: "handleFetch sampleLibraries sampleUpstream 2000 noCacheRequest sampleCache =
       \<lparr> outcome = Inr (jsonResponse (ApiDataJson imageDocument)),
         fetched = [RawContent ''/owner/repo/main/README.md''],
         waitUntil =
           [WriteToCache ''json-swr/owner/repo/main/README.md'' (ApiDataJson imageDocument),
            PutResponse ''https://github-md.com/owner/repo/main/README.md''
              (jsonResponse (ApiDataJson imageDocument))] \<rparr>"
    using md route(4) by (simp add: no_cache_paths)
  note fl = bypass_on_document_and_listing_paths
      [where request = pragmaListingRequest and name = "''pragma''" and before = "[]"
        and directive = "''No-Cache''" and rest = "[]" and L = sampleLibraries
        and U = sampleUpstream and now = 2000
        and cache = "sampleCache :: (string \<times> string) list Cache"
        and parsed = imageDocument and listing = sampleListing and t = 2050,
        OF hdr(2) low(2) nm(2) route(5) route(6), THEN conjunct2, THEN mp, OF route(7),
        THEN conjunct2, THEN mp, OF made(2), THEN conjunct1]
  have b: "handleFetch sampleLibraries sampleUpstream 2000 pragmaListingRequest sampleCache =
       \<lparr> outcome = Inr (jsonResponse (CachedFilesJson sampleListing)),
         fetched = [TreeListing ''owner'' ''repo'' ''main''],
         waitUntil =
           [WriteToCache ''files/owner/repo/main'' (CachedFilesJson sampleListing),
            PutResponse ''https://github-md.com/owner/repo/main''
              (jsonResponse (CachedFilesJson sampleListing))] \<rparr>"
    using fl pieces route(8) by (simp add: no_cache_paths)
  show ?thesis
    using a b hdr read_sample_document by simp
qed

section \<open>Reading a fresh entry\<close>

text \<open>
  C7: for every read without a bypass directive where an entry exists and
  \<open>now < staleAt\<close>, the operation returns the cached payload, awaits no upstream fetch
  and schedules nothing. This holds for \<open>renderMarkdown\<close> and for \<open>renderFiles\<close>.
\<close>

theorem fresh_read_no_fetch:
  assumes "\<not> shouldSkipCache request" and "staleAt cached = Num s" and "now < s"
  shows "(readFromCache cache (''json-swr'' @ pathname request) = Inr (Some cached) \<longrightarrow>
           renderMarkdown L U now request cache =
             \<lparr> outcome = Inr (jsonResponse (data cached)), fetched = [], waitUntil = [] \<rparr>)
       \<and> (readFromCache cache (''files'' @ pathname request) = Inr (Some cached) \<longrightarrow>
           renderFiles U now request cache =
             \<lparr> outcome = Inr (jsonResponse (data cached)), fetched = [], waitUntil = [] \<rparr>)"
  using assms by (simp add: renderMarkdown_def renderFiles_def Let_def)

text \<open>
  The theorem of C7 on the sample cache at time \<open>2000\<close>, with an upstream that would
  fail.
\<close>

theorem fresh_read_no_fetch_witness:
  "\<not> shouldSkipCache readmeRequest \<and> \<not> shouldSkipCache listingRequest
   \<and> (2000::nat) < 301000
   \<and> renderMarkdown sampleLibraries failingUpstream 2000 readmeRequest sampleCache =
       \<lparr> outcome = Inr (jsonResponse oldDocument), fetched = [], waitUntil = [] \<rparr>
   \<and> renderFiles failingUpstream 2000 listingRequest sampleCache =
       \<lparr> outcome = Inr (jsonResponse oldListing), fetched = [], waitUntil = [] \<rparr>"
proof -
  have skip: "\<not> shouldSkipCache readmeRequest" "\<not> shouldSkipCache listingRequest"
    using readme_route listing_route by simp_all
  have "renderMarkdown sampleLibraries failingUpstream 2000 readmeRequest sampleCache =
       \<lparr> outcome = Inr (jsonResponse oldDocument), fetched = [], waitUntil = [] \<rparr>"
    using fresh_read_no_fetch [where request = readmeRequest and now = 2000 and s = 301000
        and cached = "\<lparr> data = oldDocument, staleAt = Num 301000 \<rparr>" and cache = sampleCache
        and L = sampleLibraries and U = failingUpstream]
      skip read_readme by simp
  moreover have "renderFiles failingUpstream 2000 listingRequest sampleCache =
       \<lparr> outcome = Inr (jsonResponse oldListing), fetched = [], waitUntil = [] \<rparr>"
    using fresh_read_no_fetch [where request = listingRequest and now = 2000 and s = 301000
        and cached = "\<lparr> data = oldListing, staleAt = Num 301000 \<rparr>" and cache = sampleCache
        and L = sampleLibraries and U = failingUpstream]
      skip read_listing by simp
  ultimately show ?thesis using skip by simp
qed

section \<open>The file listing\<close>

text \<open>
  C8: on a successful tree response the listing producer returns the commit \<open>sha\<close> and
  exactly the entries of type \<open>blob\<close> whose path ends in \<open>.md\<close>, case-insensitively, each
  as \<open>{path, sha}\<close> and in the upstream order; on a non-success response it returns
  \<open>null\<close>.
\<close>

theorem listing_keeps_markdown_blobs:
  "createNewFilesCacheEntry U user repo ref =
     (if ok (trees U user repo ref)
      then Some \<lparr> CachedFiles.sha = GitTree.sha (content (trees U user repo ref)),
                  files =
                    map (\<lambda>item. \<lparr> CachedFile.path = TreeItem.path item,
                                   sha = TreeItem.sha item \<rparr>)
                      (filter (\<lambda>item. TreeItem.type item = ''blob''
                                        \<and> markdownSuffix (TreeItem.path item))
                         (tree (content (trees U user repo ref)))) \<rparr>
      else None)"
  by (simp add: createNewFilesCacheEntry_def Let_def foldl_push endsWith_md)

text \<open>
  The theorem of C8 on the tree \<open>README.md\<close>, \<open>README.MD\<close>, a directory \<open>notes.md\<close>,
  \<open>src/index.ts\<close>, \<open>docs/a.markdown\<close>: the first two are listed, in that order.
\<close>

theorem listing_keeps_markdown_blobs_witness:
  "createNewFilesCacheEntry sampleUpstream ''owner'' ''repo'' ''main'' =
     Some \<lparr> CachedFiles.sha = ''c0ffee'',
            files = [\<lparr> CachedFile.path = ''README.md'', sha = ''a1'' \<rparr>,
                     \<lparr> CachedFile.path = ''README.MD'', sha = ''b2'' \<rparr>] \<rparr>"
  using listing_keeps_markdown_blobs [of sampleUpstream "''owner''" "''repo''" "''main''"]
  by (simp add: sampleUpstream_def sampleTree_def markdownSuffix_samples)

section \<open>Scripts and script links\<close>

text \<open>
  C9: for every raw markdown input that \<open>parseMarkdown\<close> transforms, the HTML it
  returns has no \<open>script\<close> element and no \<open>href\<close> attribute with the scheme
  \<open>javascript\<close>, at any depth of the forest.
\<close>

theorem sanitized_html_has_no_script:
  assumes "parseMarkdown L markdown = Inr parsed"
  shows "''script'' \<notin> set (tags_of (html parsed))
       \<and> (\<forall>(tag, a, v) \<in> set (attribs_of (html parsed)).
            a = ''href'' \<longrightarrow> url_scheme v \<noteq> Some ''javascript'')"
proof -
  from assms obtain rendered where h: "html parsed = sanitize rendered sanitizeOptions"
    using parseMarkdown_html by blast
  have "''script'' \<notin> set (tags_of (html parsed))"
    using sanitize_tags script_not_allowed unfolding h by blast
  moreover have "url_scheme v \<noteq> Some ''javascript''"
    if "(tag, ''href'', v) \<in> set (attribs_of (html parsed))" for tag v
  proof -
    from that have "keepAttribute sanitizeOptions tag (''href'', v)"
      unfolding h by (rule sanitize_attribs)
    then have "url_scheme v = None
        \<or> (\<exists>s. url_scheme v = Some s \<and> s \<in> set (allowedSchemes sanitizeOptions))"
      by (rule kept_url_scheme) simp
    then show ?thesis
      by (auto simp: options_schemes)
  qed
  ultimately show ?thesis by auto
qed

text \<open>
  The theorem of C9 at a raw HTML block that nests a script and a \<open>JaVaScRiPt:\<close> link
  in a \<open>div\<close>: the script is gone, the link has lost its \<open>href\<close>.
\<close>

theorem sanitized_html_has_no_script_witness:
  "parseMarkdown sampleLibraries scriptMarkdown =
     Inr \<lparr> attributes = [], html = [Element ''div'' [] [Element ''a'' [] [Text ''x'']]] \<rparr>
   \<and> ''script'' \<notin> set (tags_of [Element ''div'' [] [Element ''a'' [] [Text ''x'']]])
   \<and> tags_of [Element ''div'' [] [Element ''a'' [] [Text ''x'']]] = [''div'', ''a'']
   \<and> attribs_of [Element ''div'' [] [Element ''a'' [] [Text ''x'']]] = []"
  using sanitized_html_has_no_script [OF parse_script_sample] parse_script_sample
  by (simp add: tags_of_def attribs_of_def)

section \<open>An entry without a staleness stamp\<close>

text \<open>
  C10: for every cache read where the stored entry has no \<open>Stale-At\<close> header, or an
  empty one, \<open>readFromCache\<close> reports \<open>staleAt = 0\<close>; so at any time greater than zero
  a read without a bypass directive serves the cached payload and schedules a
  regeneration, instead of failing or treating the entry as absent.
\<close>

theorem missing_stale_at_is_stale:
  assumes "cache (''kv://'' @ key) = Some match" and "body match = JsonBody json"
    and "Response.headers match ''stale-at'' = None
         \<or> Response.headers match ''stale-at'' = Some []"
  shows "readFromCache cache key = Inr (Some \<lparr> data = json, staleAt = Num 0 \<rparr>)
       \<and> (0 < now \<and> \<not> shouldSkipCache request \<and> key = ''json-swr'' @ pathname request \<longrightarrow>
           renderMarkdown L U now request cache =
             \<lparr> outcome = Inr (jsonResponse json), fetched = [],
               waitUntil = [RegenerateMarkdown key (pathname request)] \<rparr>)"
proof -
  from assms have r: "readFromCache cache key = Inr (Some \<lparr> data = json, staleAt = Num 0 \<rparr>)"
    by (auto simp: readFromCache_def)
  then show ?thesis
    by (auto simp: renderMarkdown_def Let_def)
qed

text \<open>
  The theorem of C10 on a cache whose document entry has no \<open>Stale-At\<close> header, at
  time \<open>1\<close>.
\<close>

theorem missing_stale_at_is_stale_witness:
  "readFromCache unstampedCache ''json-swr/owner/repo/main/README.md'' =
     Inr (Some \<lparr> data = oldDocument, staleAt = Num 0 \<rparr>)
   \<and> renderMarkdown sampleLibraries sampleUpstream 1 readmeRequest unstampedCache =
       \<lparr> outcome = Inr (jsonResponse oldDocument), fetched = [],
         waitUntil = [RegenerateMarkdown ''json-swr/owner/repo/main/README.md''
                        ''/owner/repo/main/README.md''] \<rparr>"
proof -
  let ?match = "\<lparr> status = 200, headers = [''content-type'' \<mapsto> ''application/json''],
          body = JsonBody oldDocument \<rparr> :: (string \<times> string) list Response"
  have "unstampedCache (''kv://'' @ ''json-swr/owner/repo/main/README.md'') = Some ?match"
    by (simp add: unstampedCache_def)
  moreover have "body ?match = JsonBody oldDocument" by simp
  moreover have "Response.headers ?match ''stale-at'' = None
         \<or> Response.headers ?match ''stale-at'' = Some []" by simp
  ultimately show ?thesis
    using missing_stale_at_is_stale [where cache = unstampedCache
        and key = "''json-swr/owner/repo/main/README.md''" and match = ?match
        and json = oldDocument and now = 1 and request = readmeRequest
        and L = sampleLibraries and U = sampleUpstream]
      readme_route
    by (simp add: readme_path)
qed

end
